theory Spec2Isabelle
  imports Complex_Main
begin

section \<open>Numbers, samples and geometry\<close>

text \<open>
  The weak-form library \<^verbatim>\<open>weakforms_h1.cpp\<close> is a C++ template over \<^verbatim>\<open>Scalar\<close>; the
  quadrature weights, the trial and test functions and the geometry are \<^verbatim>\<open>double\<close>.
  Both are read here as \<^typ>\<open>real\<close>: the development is about the formulas the
  evaluators compute, in exact arithmetic, and says nothing about rounding.

  A C array that the code reads at the offsets \<open>0 .. n - 1\<close> is a function from the
  offset to the element; the array \<^verbatim>\<open>u_ext\<close> of previous iterates is a function from the
  (C \<^verbatim>\<open>int\<close>) space index to the samples of that iterate.
\<close>

text \<open>
  Modelled from the spec: the enumerations \<^verbatim>\<open>GeomType\<close> and \<^verbatim>\<open>SymFlag\<close> are declared
  outside the library file. A geometry mode is planar, axisymmetric about \<open>x\<close> or
  axisymmetric about \<open>y\<close>; a symmetry flag is symmetric, nonsymmetric or antisymmetric.
\<close>

datatype GeomType = HERMES_PLANAR | HERMES_AXISYM_X | HERMES_AXISYM_Y

datatype SymFlag = HERMES_ANTISYM | HERMES_NONSYM | HERMES_SYM

text \<open>\<^verbatim>\<open>Func<T>\<close>: the fields the evaluators read.\<close>

record 'a Func =
  val :: "nat \<Rightarrow> 'a"
  dx :: "nat \<Rightarrow> 'a"
  dy :: "nat \<Rightarrow> 'a"

text \<open>\<^verbatim>\<open>Geom<T>\<close>: the physical coordinates \<^verbatim>\<open>e->x[i]\<close> and \<^verbatim>\<open>e->y[i]\<close>.\<close>

record 'a Geom =
  geom_x :: "nat \<Rightarrow> 'a"
  geom_y :: "nat \<Rightarrow> 'a"


section \<open>Coefficient models and the store that holds them\<close>

text \<open>
  The terms keep pointers to their coefficient models, and construction and destruction
  allocate and release them, so the models live in an explicit store. A cell of the store
  is \<open>Some\<close> object while the object is alive and \<open>None\<close> once it has been released;
  \<^verbatim>\<open>new\<close> takes the next cell.
\<close>

text \<open>
  Modelled from the spec: the classes \<^verbatim>\<open>DefaultFunction\<close> and \<^verbatim>\<open>CubicSpline\<close> are declared
  outside the library file. A coefficient model is an object with the methods the
  evaluators call: \<^verbatim>\<open>value(x, y)\<close> for a function, \<^verbatim>\<open>get_value(u)\<close> and
  \<^verbatim>\<open>get_derivative(u)\<close> for a spline. The constructors called with \<^verbatim>\<open>1.0\<close> build the
  constant variant, whose derivative is identically zero.
\<close>

record DefaultFunction =
  function_value :: "real \<Rightarrow> real \<Rightarrow> real"

record CubicSpline =
  get_value :: "real \<Rightarrow> real"
  get_derivative :: "real \<Rightarrow> real"

definition DefaultFunction_const :: "real \<Rightarrow> DefaultFunction" where
  "DefaultFunction_const c = \<lparr>function_value = (\<lambda>x y. c)\<rparr>"

definition CubicSpline_const :: "real \<Rightarrow> CubicSpline" where
  "CubicSpline_const c = \<lparr>get_value = (\<lambda>u. c), get_derivative = (\<lambda>u. 0)\<rparr>"

datatype object = FunctionObject DefaultFunction | SplineObject CubicSpline

datatype ptr = Null | Ptr nat

type_synonym heap = "object option list"

text \<open>
  Modelled from the spec: the sentinel "default" markers \<^verbatim>\<open>HERMES_DEFAULT_FUNCTION\<close> and
  \<^verbatim>\<open>HERMES_DEFAULT_SPLINE\<close> are macros defined outside the library file. They are a
  pointer value that no allocation returns, the null pointer.
\<close>

definition HERMES_DEFAULT_FUNCTION :: ptr where
  "HERMES_DEFAULT_FUNCTION = Null"

definition HERMES_DEFAULT_SPLINE :: ptr where
  "HERMES_DEFAULT_SPLINE = Null"

definition new :: "object \<Rightarrow> heap \<Rightarrow> ptr \<times> heap" where
  "new ob h = (Ptr (length h), h @ [Some ob])"

fun deref :: "heap \<Rightarrow> ptr \<Rightarrow> object option" where
  "deref h Null = None"
| "deref h (Ptr a) = (if a < length h then h ! a else None)"

text \<open>
  \<^verbatim>\<open>delete p\<close>: nothing happens for the null pointer, a live object is released, and
  anything else (a dangling pointer, a second release) is undefined behaviour, \<open>None\<close>.
\<close>

fun delete :: "ptr \<Rightarrow> heap \<Rightarrow> heap option" where
  "delete Null h = Some h"
| "delete (Ptr a) h = (if deref h (Ptr a) = None then None else Some (h[a := None]))"

definition live :: "heap \<Rightarrow> ptr \<Rightarrow> bool" where
  "live h p = (deref h p \<noteq> None)"

text \<open>Reading through a typed pointer; \<open>None\<close> is an invalid read.\<close>

definition function_at :: "heap \<Rightarrow> ptr \<Rightarrow> DefaultFunction option" where
  "function_at h p = (case deref h p of Some (FunctionObject f) \<Rightarrow> Some f | _ \<Rightarrow> None)"

definition spline_at :: "heap \<Rightarrow> ptr \<Rightarrow> CubicSpline option" where
  "spline_at h p = (case deref h p of Some (SplineObject s) \<Rightarrow> Some s | _ \<Rightarrow> None)"

text \<open>
  The quadrature loop \<^verbatim>\<open>for (int i = 0; i < n; i++) result += body(i);\<close> started from
  \<^verbatim>\<open>result = 0\<close>, after \<open>k\<close> rounds. A round whose body reads through an invalid pointer
  has no value, and neither has the loop from then on.
\<close>

primrec accumulate :: "(nat \<Rightarrow> real option) \<Rightarrow> nat \<Rightarrow> real option" where
  "accumulate body 0 = Some 0"
| "accumulate body (Suc k) =
     (case accumulate body k of
        None \<Rightarrow> None
      | Some result \<Rightarrow> (case body k of None \<Rightarrow> None | Some c \<Rightarrow> Some (result + c)))"

text \<open>
  Modelled from the spec: the macro \<^verbatim>\<open>error(...)\<close> is defined outside the library file
  and the test program. A call of it is fatal: the failure is signalled with the message,
  and nothing after the call runs.
\<close>

datatype error = Error string


section \<open>Volumetric matrix forms\<close>

subsection \<open>DefaultMatrixFormVol\<close>

text \<open>
  The fields \<open>form_i\<close>, \<open>form_j\<close>, \<open>form_areas\<close> and \<open>form_sym\<close> are what the base-class
  constructor \<^verbatim>\<open>MatrixFormVol(i, j, area, sym)\<close> receives; the others are the members
  of the class itself. The evaluators never read their \<^verbatim>\<open>ext\<close> argument, which is left
  out. A constructor and a destructor take the store and return the new one.
\<close>

record DefaultMatrixFormVol =
  form_i :: int
  form_j :: int
  form_areas :: "string list"
  form_sym :: SymFlag
  const_coeff :: real
  function_coeff :: ptr
  gt :: GeomType

text \<open>The constructor for one area, then the one for a list of areas.\<close>

definition DefaultMatrixFormVol_new ::
  "int \<Rightarrow> int \<Rightarrow> string \<Rightarrow> real \<Rightarrow> ptr \<Rightarrow> SymFlag \<Rightarrow> GeomType \<Rightarrow> heap
     \<Rightarrow> DefaultMatrixFormVol \<times> heap" where
  "DefaultMatrixFormVol_new i j area c f_coeff sy g h =
     (let this = \<lparr>form_i = i, form_j = j, form_areas = [area], form_sym = sy,
                  const_coeff = c, function_coeff = f_coeff, gt = g\<rparr>
      in if f_coeff = HERMES_DEFAULT_FUNCTION
         then (let (p, h') = new (FunctionObject (DefaultFunction_const 1)) h
               in (this\<lparr>function_coeff := p\<rparr>, h'))
         else (this, h))"

definition DefaultMatrixFormVol_new_areas ::
  "int \<Rightarrow> int \<Rightarrow> string list \<Rightarrow> real \<Rightarrow> ptr \<Rightarrow> SymFlag \<Rightarrow> GeomType \<Rightarrow> heap
     \<Rightarrow> DefaultMatrixFormVol \<times> heap" where
  "DefaultMatrixFormVol_new_areas i j areas c f_coeff sy g h =
     (let this = \<lparr>form_i = i, form_j = j, form_areas = areas, form_sym = sy,
                  const_coeff = c, function_coeff = f_coeff, gt = g\<rparr>
      in if f_coeff = HERMES_DEFAULT_FUNCTION
         then (let (p, h') = new (FunctionObject (DefaultFunction_const 1)) h
               in (this\<lparr>function_coeff := p\<rparr>, h'))
         else (this, h))"

definition DefaultMatrixFormVol_destroy :: "DefaultMatrixFormVol \<Rightarrow> heap \<Rightarrow> heap option" where
  "DefaultMatrixFormVol_destroy this h =
     (if function_coeff this \<noteq> HERMES_DEFAULT_FUNCTION then delete (function_coeff this) h
      else Some h)"

definition DefaultMatrixFormVol_value ::
  "heap \<Rightarrow> DefaultMatrixFormVol \<Rightarrow> int \<Rightarrow> (nat \<Rightarrow> real) \<Rightarrow> (int \<Rightarrow> real Func)
     \<Rightarrow> real Func \<Rightarrow> real Func \<Rightarrow> real Geom \<Rightarrow> real option" where
  "DefaultMatrixFormVol_value h this n wt u_ext u v e =
     map_option (\<lambda>result. const_coeff this * result)
       (if gt this = HERMES_PLANAR
        then accumulate (\<lambda>i. map_option
               (\<lambda>f. wt i * function_value f (geom_x e i) (geom_y e i) * val u i * val v i)
               (function_at h (function_coeff this))) (nat n)
        else if gt this = HERMES_AXISYM_X
        then accumulate (\<lambda>i. map_option
               (\<lambda>f. wt i * geom_y e i * function_value f (geom_x e i) (geom_y e i)
                      * val u i * val v i)
               (function_at h (function_coeff this))) (nat n)
        else accumulate (\<lambda>i. map_option
               (\<lambda>f. wt i * geom_x e i * function_value f (geom_x e i) (geom_y e i)
                      * val u i * val v i)
               (function_at h (function_coeff this))) (nat n))"


subsection \<open>DefaultJacobianDiffusion\<close>

record DefaultJacobianDiffusion =
  form_i :: int
  form_j :: int
  form_areas :: "string list"
  form_sym :: SymFlag
  idx_j :: int
  const_coeff :: real
  spline_coeff :: ptr
  gt :: GeomType

definition DefaultJacobianDiffusion_new ::
  "int \<Rightarrow> int \<Rightarrow> string \<Rightarrow> real \<Rightarrow> ptr \<Rightarrow> SymFlag \<Rightarrow> GeomType \<Rightarrow> heap
     \<Rightarrow> DefaultJacobianDiffusion \<times> heap" where
  "DefaultJacobianDiffusion_new i j area c c_spline sy g h =
     (let this = \<lparr>form_i = i, form_j = j, form_areas = [area], form_sym = sy,
                  idx_j = j, const_coeff = c, spline_coeff = c_spline, gt = g\<rparr>
      in if c_spline = HERMES_DEFAULT_SPLINE
         then (let (p, h') = new (SplineObject (CubicSpline_const 1)) h
               in (this\<lparr>spline_coeff := p\<rparr>, h'))
         else (this, h))"

definition DefaultJacobianDiffusion_new_areas ::
  "int \<Rightarrow> int \<Rightarrow> string list \<Rightarrow> real \<Rightarrow> ptr \<Rightarrow> SymFlag \<Rightarrow> GeomType \<Rightarrow> heap
     \<Rightarrow> DefaultJacobianDiffusion \<times> heap" where
  "DefaultJacobianDiffusion_new_areas i j areas c c_spline sy g h =
     (let this = \<lparr>form_i = i, form_j = j, form_areas = areas, form_sym = sy,
                  idx_j = j, const_coeff = c, spline_coeff = c_spline, gt = g\<rparr>
      in if c_spline = HERMES_DEFAULT_SPLINE
         then (let (p, h') = new (SplineObject (CubicSpline_const 1)) h
               in (this\<lparr>spline_coeff := p\<rparr>, h'))
         else (this, h))"

definition DefaultJacobianDiffusion_destroy ::
  "DefaultJacobianDiffusion \<Rightarrow> heap \<Rightarrow> heap option" where
  "DefaultJacobianDiffusion_destroy this h =
     (if spline_coeff this \<noteq> HERMES_DEFAULT_SPLINE then delete (spline_coeff this) h
      else Some h)"

definition DefaultJacobianDiffusion_value ::
  "heap \<Rightarrow> DefaultJacobianDiffusion \<Rightarrow> int \<Rightarrow> (nat \<Rightarrow> real) \<Rightarrow> (int \<Rightarrow> real Func)
     \<Rightarrow> real Func \<Rightarrow> real Func \<Rightarrow> real Geom \<Rightarrow> real option" where
  "DefaultJacobianDiffusion_value h this n wt u_ext u v e =
     (if gt this = HERMES_PLANAR
      then accumulate (\<lambda>i. map_option
             (\<lambda>s. wt i * (const_coeff this * get_derivative s (val (u_ext (idx_j this)) i)
                             * val u i
                             * (dx (u_ext (idx_j this)) i * dx v i
                                + dy (u_ext (idx_j this)) i * dy v i)
                           + const_coeff this * get_value s (val (u_ext (idx_j this)) i)
                             * (dx u i * dx v i + dy u i * dy v i)))
             (spline_at h (spline_coeff this))) (nat n)
      else if gt this = HERMES_AXISYM_X
      then accumulate (\<lambda>i. map_option
             (\<lambda>s. wt i * geom_y e i
                     * (const_coeff this * get_derivative s (val (u_ext (idx_j this)) i)
                          * val u i
                          * (dx (u_ext (idx_j this)) i * dx v i
                             + dy (u_ext (idx_j this)) i * dy v i)
                        + const_coeff this * get_value s (val (u_ext (idx_j this)) i)
                          * (dx u i * dx v i + dy u i * dy v i)))
             (spline_at h (spline_coeff this))) (nat n)
      else accumulate (\<lambda>i. map_option
             (\<lambda>s. wt i * geom_x e i
                     * (const_coeff this * get_derivative s (val (u_ext (idx_j this)) i)
                          * val u i
                          * (dx (u_ext (idx_j this)) i * dx v i
                             + dy (u_ext (idx_j this)) i * dy v i)
                        + const_coeff this * get_value s (val (u_ext (idx_j this)) i)
                          * (dx u i * dx v i + dy u i * dy v i)))
             (spline_at h (spline_coeff this))) (nat n))"


subsection \<open>DefaultJacobianAdvection\<close>

record DefaultJacobianAdvection =
  form_i :: int
  form_j :: int
  form_areas :: "string list"
  form_sym :: SymFlag
  idx_j :: int
  const_coeff1 :: real
  const_coeff2 :: real
  spline_coeff1 :: ptr
  spline_coeff2 :: ptr
  gt :: GeomType

text \<open>
  The body of either constructor starts with the check of the geometry mode. The two
  replacements of a sentinel by a fresh constant spline follow, the first spline first.
\<close>

definition DefaultJacobianAdvection_new ::
  "int \<Rightarrow> int \<Rightarrow> string \<Rightarrow> real \<Rightarrow> real \<Rightarrow> ptr \<Rightarrow> ptr \<Rightarrow> GeomType \<Rightarrow> heap
     \<Rightarrow> error + DefaultJacobianAdvection \<times> heap" where
  "DefaultJacobianAdvection_new i j area c1 c2 c_spline1 c_spline2 g h =
     (let this = \<lparr>form_i = i, form_j = j, form_areas = [area], form_sym = HERMES_NONSYM,
                  idx_j = j, const_coeff1 = c1, const_coeff2 = c2,
                  spline_coeff1 = c_spline1, spline_coeff2 = c_spline2, gt = g\<rparr>
      in if g \<noteq> HERMES_PLANAR
         then Inl (Error ''Axisymmetric advection forms not implemented yet.'')
         else
           (let (this1, h1) =
                  (if c_spline1 = HERMES_DEFAULT_SPLINE
                   then (let (p, h') = new (SplineObject (CubicSpline_const 1)) h
                         in (this\<lparr>spline_coeff1 := p\<rparr>, h'))
                   else (this, h));
                (this2, h2) =
                  (if c_spline2 = HERMES_DEFAULT_SPLINE
                   then (let (p, h') = new (SplineObject (CubicSpline_const 1)) h1
                         in (this1\<lparr>spline_coeff2 := p\<rparr>, h'))
                   else (this1, h1))
            in Inr (this2, h2)))"

text \<open>
  The constructor for a list of areas initialises the two spline members by
  \<^verbatim>\<open>spline_coeff1(spline_coeff1), spline_coeff2(spline_coeff2)\<close>: each member from
  itself, not from the argument \<^verbatim>\<open>c_spline1\<close> or \<^verbatim>\<open>c_spline2\<close>. What the member holds then
  is what the storage of the object held before the constructor ran; that content is the
  argument \<open>raw\<close>.
\<close>

definition DefaultJacobianAdvection_new_areas ::
  "DefaultJacobianAdvection \<Rightarrow> int \<Rightarrow> int \<Rightarrow> string list \<Rightarrow> real \<Rightarrow> real \<Rightarrow> ptr \<Rightarrow> ptr
     \<Rightarrow> GeomType \<Rightarrow> heap \<Rightarrow> error + DefaultJacobianAdvection \<times> heap" where
  "DefaultJacobianAdvection_new_areas raw i j areas c1 c2 c_spline1 c_spline2 g h =
     (let this = \<lparr>form_i = i, form_j = j, form_areas = areas, form_sym = HERMES_NONSYM,
                  idx_j = j, const_coeff1 = c1, const_coeff2 = c2,
                  spline_coeff1 = spline_coeff1 raw, spline_coeff2 = spline_coeff2 raw,
                  gt = g\<rparr>
      in if g \<noteq> HERMES_PLANAR
         then Inl (Error ''Axisymmetric advection forms not implemented yet.'')
         else
           (let (this1, h1) =
                  (if c_spline1 = HERMES_DEFAULT_SPLINE
                   then (let (p, h') = new (SplineObject (CubicSpline_const 1)) h
                         in (this\<lparr>spline_coeff1 := p\<rparr>, h'))
                   else (this, h));
                (this2, h2) =
                  (if c_spline2 = HERMES_DEFAULT_SPLINE
                   then (let (p, h') = new (SplineObject (CubicSpline_const 1)) h1
                         in (this1\<lparr>spline_coeff2 := p\<rparr>, h'))
                   else (this1, h1))
            in Inr (this2, h2)))"

definition DefaultJacobianAdvection_destroy ::
  "DefaultJacobianAdvection \<Rightarrow> heap \<Rightarrow> heap option" where
  "DefaultJacobianAdvection_destroy this h =
     (case (if spline_coeff1 this \<noteq> HERMES_DEFAULT_SPLINE then delete (spline_coeff1 this) h
            else Some h) of
        None \<Rightarrow> None
      | Some h1 \<Rightarrow>
          (if spline_coeff2 this \<noteq> HERMES_DEFAULT_SPLINE then delete (spline_coeff2 this) h1
           else Some h1))"

definition DefaultJacobianAdvection_value ::
  "heap \<Rightarrow> DefaultJacobianAdvection \<Rightarrow> int \<Rightarrow> (nat \<Rightarrow> real) \<Rightarrow> (int \<Rightarrow> real Func)
     \<Rightarrow> real Func \<Rightarrow> real Func \<Rightarrow> real Geom \<Rightarrow> real option" where
  "DefaultJacobianAdvection_value h this n wt u_ext u v e =
     accumulate (\<lambda>i.
       case spline_at h (spline_coeff1 this) of
         None \<Rightarrow> None
       | Some s1 \<Rightarrow>
           (case spline_at h (spline_coeff2 this) of
              None \<Rightarrow> None
            | Some s2 \<Rightarrow>
                Some (wt i
                  * (const_coeff1 this * get_derivative s1 (val (u_ext (idx_j this)) i)
                       * val u i * dx (u_ext (idx_j this)) i * val v i
                     + const_coeff1 this * get_value s1 (val (u_ext (idx_j this)) i)
                       * dx u i * val v i
                     + const_coeff2 this * get_derivative s2 (val (u_ext (idx_j this)) i)
                       * val u i * dy (u_ext (idx_j this)) i * val v i
                     + const_coeff2 this * get_value s2 (val (u_ext (idx_j this)) i)
                       * dy u i * val v i)))) (nat n)"


section \<open>Volumetric vector forms\<close>

subsection \<open>DefaultVectorFormVol\<close>

record DefaultVectorFormVol =
  form_i :: int
  form_areas :: "string list"
  const_coeff :: real
  function_coeff :: ptr
  gt :: GeomType

definition DefaultVectorFormVol_new ::
  "int \<Rightarrow> string \<Rightarrow> real \<Rightarrow> ptr \<Rightarrow> GeomType \<Rightarrow> heap \<Rightarrow> DefaultVectorFormVol \<times> heap" where
  "DefaultVectorFormVol_new i area c f_coeff g h =
     (let this = \<lparr>form_i = i, form_areas = [area],
                  const_coeff = c, function_coeff = f_coeff, gt = g\<rparr>
      in if f_coeff = HERMES_DEFAULT_FUNCTION
         then (let (p, h') = new (FunctionObject (DefaultFunction_const 1)) h
               in (this\<lparr>function_coeff := p\<rparr>, h'))
         else (this, h))"

definition DefaultVectorFormVol_new_areas ::
  "int \<Rightarrow> string list \<Rightarrow> real \<Rightarrow> ptr \<Rightarrow> GeomType \<Rightarrow> heap \<Rightarrow> DefaultVectorFormVol \<times> heap" where
  "DefaultVectorFormVol_new_areas i areas c f_coeff g h =
     (let this = \<lparr>form_i = i, form_areas = areas,
                  const_coeff = c, function_coeff = f_coeff, gt = g\<rparr>
      in if f_coeff = HERMES_DEFAULT_FUNCTION
         then (let (p, h') = new (FunctionObject (DefaultFunction_const 1)) h
               in (this\<lparr>function_coeff := p\<rparr>, h'))
         else (this, h))"

definition DefaultVectorFormVol_destroy :: "DefaultVectorFormVol \<Rightarrow> heap \<Rightarrow> heap option" where
  "DefaultVectorFormVol_destroy this h =
     (if function_coeff this \<noteq> HERMES_DEFAULT_FUNCTION then delete (function_coeff this) h
      else Some h)"

definition DefaultVectorFormVol_value ::
  "heap \<Rightarrow> DefaultVectorFormVol \<Rightarrow> int \<Rightarrow> (nat \<Rightarrow> real) \<Rightarrow> (int \<Rightarrow> real Func)
     \<Rightarrow> real Func \<Rightarrow> real Geom \<Rightarrow> real option" where
  "DefaultVectorFormVol_value h this n wt u_ext v e =
     map_option (\<lambda>result. const_coeff this * result)
       (if gt this = HERMES_PLANAR
        then accumulate (\<lambda>i. map_option
               (\<lambda>f. wt i * function_value f (geom_x e i) (geom_y e i) * val v i)
               (function_at h (function_coeff this))) (nat n)
        else if gt this = HERMES_AXISYM_X
        then accumulate (\<lambda>i. map_option
               (\<lambda>f. wt i * geom_y e i * function_value f (geom_x e i) (geom_y e i) * val v i)
               (function_at h (function_coeff this))) (nat n)
        else accumulate (\<lambda>i. map_option
               (\<lambda>f. wt i * geom_x e i * function_value f (geom_x e i) (geom_y e i) * val v i)
               (function_at h (function_coeff this))) (nat n))"


subsection \<open>DefaultResidualVol\<close>

record DefaultResidualVol =
  form_i :: int
  form_areas :: "string list"
  idx_i :: int
  const_coeff :: real
  function_coeff :: ptr
  gt :: GeomType

definition DefaultResidualVol_new ::
  "int \<Rightarrow> string \<Rightarrow> real \<Rightarrow> ptr \<Rightarrow> GeomType \<Rightarrow> heap \<Rightarrow> DefaultResidualVol \<times> heap" where
  "DefaultResidualVol_new i area c f_coeff g h =
     (let this = \<lparr>form_i = i, form_areas = [area], idx_i = i,
                  const_coeff = c, function_coeff = f_coeff, gt = g\<rparr>
      in if f_coeff = HERMES_DEFAULT_FUNCTION
         then (let (p, h') = new (FunctionObject (DefaultFunction_const 1)) h
               in (this\<lparr>function_coeff := p\<rparr>, h'))
         else (this, h))"

definition DefaultResidualVol_new_areas ::
  "int \<Rightarrow> string list \<Rightarrow> real \<Rightarrow> ptr \<Rightarrow> GeomType \<Rightarrow> heap \<Rightarrow> DefaultResidualVol \<times> heap" where
  "DefaultResidualVol_new_areas i areas c f_coeff g h =
     (let this = \<lparr>form_i = i, form_areas = areas, idx_i = i,
                  const_coeff = c, function_coeff = f_coeff, gt = g\<rparr>
      in if f_coeff = HERMES_DEFAULT_FUNCTION
         then (let (p, h') = new (FunctionObject (DefaultFunction_const 1)) h
               in (this\<lparr>function_coeff := p\<rparr>, h'))
         else (this, h))"

definition DefaultResidualVol_destroy :: "DefaultResidualVol \<Rightarrow> heap \<Rightarrow> heap option" where
  "DefaultResidualVol_destroy this h =
     (if function_coeff this \<noteq> HERMES_DEFAULT_FUNCTION then delete (function_coeff this) h
      else Some h)"

definition DefaultResidualVol_value ::
  "heap \<Rightarrow> DefaultResidualVol \<Rightarrow> int \<Rightarrow> (nat \<Rightarrow> real) \<Rightarrow> (int \<Rightarrow> real Func)
     \<Rightarrow> real Func \<Rightarrow> real Geom \<Rightarrow> real option" where
  "DefaultResidualVol_value h this n wt u_ext v e =
     map_option (\<lambda>result. const_coeff this * result)
       (if gt this = HERMES_PLANAR
        then accumulate (\<lambda>i. map_option
               (\<lambda>f. wt i * function_value f (geom_x e i) (geom_y e i)
                      * val (u_ext (idx_i this)) i * val v i)
               (function_at h (function_coeff this))) (nat n)
        else if gt this = HERMES_AXISYM_X
        then accumulate (\<lambda>i. map_option
               (\<lambda>f. wt i * geom_y e i * function_value f (geom_x e i) (geom_y e i)
                      * val (u_ext (idx_i this)) i * val v i)
               (function_at h (function_coeff this))) (nat n)
        else accumulate (\<lambda>i. map_option
               (\<lambda>f. wt i * geom_x e i * function_value f (geom_x e i) (geom_y e i)
                      * val (u_ext (idx_i this)) i * val v i)
               (function_at h (function_coeff this))) (nat n))"


subsection \<open>The algebra of polynomial orders\<close>

text \<open>
  Modelled from the spec: the class \<^verbatim>\<open>Ord\<close> is declared outside the library file. An order
  is a polynomial degree; in the order-estimators addition is the maximum of the two
  degrees and multiplication is their sum, and a number (a weight, a constant
  coefficient, the initial \<^verbatim>\<open>0\<close>) has degree 0. \<^verbatim>\<open>Ord(1)\<close> is the order of degree 1.
\<close>

datatype Ord = Ord int

fun get_order :: "Ord \<Rightarrow> int" where
  "get_order (Ord k) = k"

definition Ord_of_double :: "real \<Rightarrow> Ord" where
  "Ord_of_double d = Ord 0"

fun Ord_plus :: "Ord \<Rightarrow> Ord \<Rightarrow> Ord" where
  "Ord_plus (Ord a) (Ord b) = Ord (max a b)"

fun Ord_times :: "Ord \<Rightarrow> Ord \<Rightarrow> Ord" where
  "Ord_times (Ord a) (Ord b) = Ord (a + b)"

text \<open>The quadrature loop of an order-estimator, from \<^verbatim>\<open>Ord result = 0\<close>.\<close>

primrec accumulate_Ord :: "(nat \<Rightarrow> Ord option) \<Rightarrow> nat \<Rightarrow> Ord option" where
  "accumulate_Ord body 0 = Some (Ord_of_double 0)"
| "accumulate_Ord body (Suc k) =
     (case accumulate_Ord body k of
        None \<Rightarrow> None
      | Some result \<Rightarrow> (case body k of None \<Rightarrow> None | Some c \<Rightarrow> Some (Ord_plus result c)))"


subsection \<open>DefaultResidualDiffusion\<close>

record DefaultResidualDiffusion =
  form_i :: int
  form_areas :: "string list"
  idx_i :: int
  const_coeff :: real
  spline_coeff :: ptr
  gt :: GeomType

definition DefaultResidualDiffusion_new ::
  "int \<Rightarrow> string \<Rightarrow> real \<Rightarrow> ptr \<Rightarrow> GeomType \<Rightarrow> heap \<Rightarrow> DefaultResidualDiffusion \<times> heap" where
  "DefaultResidualDiffusion_new i area c c_spline g h =
     (let this = \<lparr>form_i = i, form_areas = [area], idx_i = i,
                  const_coeff = c, spline_coeff = c_spline, gt = g\<rparr>
      in if c_spline = HERMES_DEFAULT_SPLINE
         then (let (p, h') = new (SplineObject (CubicSpline_const 1)) h
               in (this\<lparr>spline_coeff := p\<rparr>, h'))
         else (this, h))"

definition DefaultResidualDiffusion_new_areas ::
  "int \<Rightarrow> string list \<Rightarrow> real \<Rightarrow> ptr \<Rightarrow> GeomType \<Rightarrow> heap
     \<Rightarrow> DefaultResidualDiffusion \<times> heap" where
  "DefaultResidualDiffusion_new_areas i areas c c_spline g h =
     (let this = \<lparr>form_i = i, form_areas = areas, idx_i = i,
                  const_coeff = c, spline_coeff = c_spline, gt = g\<rparr>
      in if c_spline = HERMES_DEFAULT_SPLINE
         then (let (p, h') = new (SplineObject (CubicSpline_const 1)) h
               in (this\<lparr>spline_coeff := p\<rparr>, h'))
         else (this, h))"

definition DefaultResidualDiffusion_destroy ::
  "DefaultResidualDiffusion \<Rightarrow> heap \<Rightarrow> heap option" where
  "DefaultResidualDiffusion_destroy this h =
     (if spline_coeff this \<noteq> HERMES_DEFAULT_SPLINE then delete (spline_coeff this) h
      else Some h)"

definition DefaultResidualDiffusion_value ::
  "heap \<Rightarrow> DefaultResidualDiffusion \<Rightarrow> int \<Rightarrow> (nat \<Rightarrow> real) \<Rightarrow> (int \<Rightarrow> real Func)
     \<Rightarrow> real Func \<Rightarrow> real Geom \<Rightarrow> real option" where
  "DefaultResidualDiffusion_value h this n wt u_ext v e =
     (if gt this = HERMES_PLANAR
      then accumulate (\<lambda>i. map_option
             (\<lambda>s. wt i * const_coeff this * get_value s (val (u_ext (idx_i this)) i)
                     * (dx (u_ext (idx_i this)) i * dx v i
                        + dy (u_ext (idx_i this)) i * dy v i))
             (spline_at h (spline_coeff this))) (nat n)
      else if gt this = HERMES_AXISYM_X
      then accumulate (\<lambda>i. map_option
             (\<lambda>s. wt i * geom_y e i * const_coeff this
                     * get_value s (val (u_ext (idx_i this)) i)
                     * (dx (u_ext (idx_i this)) i * dx v i
                        + dy (u_ext (idx_i this)) i * dy v i))
             (spline_at h (spline_coeff this))) (nat n)
      else accumulate (\<lambda>i. map_option
             (\<lambda>s. wt i * geom_x e i * const_coeff this
                     * get_value s (val (u_ext (idx_i this)) i)
                     * (dx (u_ext (idx_i this)) i * dx v i
                        + dy (u_ext (idx_i this)) i * dy v i))
             (spline_at h (spline_coeff this))) (nat n))"

text \<open>
  The order-estimator. \<^verbatim>\<open>CubicSpline::get_value\<close> has an overload on orders, declared
  outside the library file; it is the argument \<open>get_value_Ord\<close>. The loop has no branch
  on the geometry mode; the mode is read once, after the loop.
\<close>

definition DefaultResidualDiffusion_ord ::
  "(CubicSpline \<Rightarrow> Ord \<Rightarrow> Ord) \<Rightarrow> heap \<Rightarrow> DefaultResidualDiffusion \<Rightarrow> int \<Rightarrow> (nat \<Rightarrow> real)
     \<Rightarrow> (int \<Rightarrow> Ord Func) \<Rightarrow> Ord Func \<Rightarrow> Ord Geom \<Rightarrow> Ord option" where
  "DefaultResidualDiffusion_ord get_value_Ord h this n wt u_ext v e =
     (case accumulate_Ord (\<lambda>i. map_option
             (\<lambda>s. Ord_times
                     (Ord_times (Ord_of_double (wt i * const_coeff this))
                                (get_value_Ord s (val (u_ext (idx_i this)) i)))
                     (Ord_plus (Ord_times (dx (u_ext (idx_i this)) i) (dx v i))
                               (Ord_times (dy (u_ext (idx_i this)) i) (dy v i))))
             (spline_at h (spline_coeff this))) (nat n) of
        None \<Rightarrow> None
      | Some result \<Rightarrow>
          if gt this \<noteq> HERMES_PLANAR then Some (Ord_times result (Ord 1)) else Some result)"


subsection \<open>DefaultResidualAdvection\<close>

record DefaultResidualAdvection =
  form_i :: int
  form_areas :: "string list"
  idx_i :: int
  const_coeff1 :: real
  const_coeff2 :: real
  spline_coeff1 :: ptr
  spline_coeff2 :: ptr
  gt :: GeomType

definition DefaultResidualAdvection_new ::
  "int \<Rightarrow> string \<Rightarrow> real \<Rightarrow> real \<Rightarrow> ptr \<Rightarrow> ptr \<Rightarrow> GeomType \<Rightarrow> heap
     \<Rightarrow> error + DefaultResidualAdvection \<times> heap" where
  "DefaultResidualAdvection_new i area c1 c2 c_spline1 c_spline2 g h =
     (let this = \<lparr>form_i = i, form_areas = [area],
                  idx_i = i, const_coeff1 = c1, const_coeff2 = c2,
                  spline_coeff1 = c_spline1, spline_coeff2 = c_spline2, gt = g\<rparr>
      in if g \<noteq> HERMES_PLANAR
         then Inl (Error ''Axisymmetric advection forms not implemented yet.'')
         else
           (let (this1, h1) =
                  (if c_spline1 = HERMES_DEFAULT_SPLINE
                   then (let (p, h') = new (SplineObject (CubicSpline_const 1)) h
                         in (this\<lparr>spline_coeff1 := p\<rparr>, h'))
                   else (this, h));
                (this2, h2) =
                  (if c_spline2 = HERMES_DEFAULT_SPLINE
                   then (let (p, h') = new (SplineObject (CubicSpline_const 1)) h1
                         in (this1\<lparr>spline_coeff2 := p\<rparr>, h'))
                   else (this1, h1))
            in Inr (this2, h2)))"

text \<open>
  As in \<open>DefaultJacobianAdvection_new_areas\<close>, the constructor for a list of areas
  initialises \<^verbatim>\<open>spline_coeff1\<close> and \<^verbatim>\<open>spline_coeff2\<close> from themselves; \<open>raw\<close> is the prior
  content of the storage.
\<close>

definition DefaultResidualAdvection_new_areas ::
  "DefaultResidualAdvection \<Rightarrow> int \<Rightarrow> string list \<Rightarrow> real \<Rightarrow> real \<Rightarrow> ptr \<Rightarrow> ptr
     \<Rightarrow> GeomType \<Rightarrow> heap \<Rightarrow> error + DefaultResidualAdvection \<times> heap" where
  "DefaultResidualAdvection_new_areas raw i areas c1 c2 c_spline1 c_spline2 g h =
     (let this = \<lparr>form_i = i, form_areas = areas,
                  idx_i = i, const_coeff1 = c1, const_coeff2 = c2,
                  spline_coeff1 = spline_coeff1 raw, spline_coeff2 = spline_coeff2 raw,
                  gt = g\<rparr>
      in if g \<noteq> HERMES_PLANAR
         then Inl (Error ''Axisymmetric advection forms not implemented yet.'')
         else
           (let (this1, h1) =
                  (if c_spline1 = HERMES_DEFAULT_SPLINE
                   then (let (p, h') = new (SplineObject (CubicSpline_const 1)) h
                         in (this\<lparr>spline_coeff1 := p\<rparr>, h'))
                   else (this, h));
                (this2, h2) =
                  (if c_spline2 = HERMES_DEFAULT_SPLINE
                   then (let (p, h') = new (SplineObject (CubicSpline_const 1)) h1
                         in (this1\<lparr>spline_coeff2 := p\<rparr>, h'))
                   else (this1, h1))
            in Inr (this2, h2)))"

definition DefaultResidualAdvection_destroy ::
  "DefaultResidualAdvection \<Rightarrow> heap \<Rightarrow> heap option" where
  "DefaultResidualAdvection_destroy this h =
     (case (if spline_coeff1 this \<noteq> HERMES_DEFAULT_SPLINE then delete (spline_coeff1 this) h
            else Some h) of
        None \<Rightarrow> None
      | Some h1 \<Rightarrow>
          (if spline_coeff2 this \<noteq> HERMES_DEFAULT_SPLINE then delete (spline_coeff2 this) h1
           else Some h1))"

definition DefaultResidualAdvection_value ::
  "heap \<Rightarrow> DefaultResidualAdvection \<Rightarrow> int \<Rightarrow> (nat \<Rightarrow> real) \<Rightarrow> (int \<Rightarrow> real Func)
     \<Rightarrow> real Func \<Rightarrow> real Geom \<Rightarrow> real option" where
  "DefaultResidualAdvection_value h this n wt u_ext v e =
     (let u_prev = u_ext (idx_i this)
      in accumulate (\<lambda>i.
           case spline_at h (spline_coeff1 this) of
             None \<Rightarrow> None
           | Some s1 \<Rightarrow>
               (case spline_at h (spline_coeff2 this) of
                  None \<Rightarrow> None
                | Some s2 \<Rightarrow>
                    Some (wt i
                      * (const_coeff1 this * get_value s1 (val u_prev i)
                           * (dx u_prev i * val v i)
                         + const_coeff2 this * get_value s2 (val u_prev i)
                           * (dy u_prev i * val v i))))) (nat n))"


section \<open>Surface forms\<close>

subsection \<open>DefaultMatrixFormSurf\<close>

record DefaultMatrixFormSurf =
  form_i :: int
  form_j :: int
  form_areas :: "string list"
  const_coeff :: real
  function_coeff :: ptr
  gt :: GeomType

definition DefaultMatrixFormSurf_new ::
  "int \<Rightarrow> int \<Rightarrow> string \<Rightarrow> real \<Rightarrow> ptr \<Rightarrow> GeomType \<Rightarrow> heap
     \<Rightarrow> DefaultMatrixFormSurf \<times> heap" where
  "DefaultMatrixFormSurf_new i j area c f_coeff g h =
     (let this = \<lparr>form_i = i, form_j = j, form_areas = [area],
                  const_coeff = c, function_coeff = f_coeff, gt = g\<rparr>
      in if f_coeff = HERMES_DEFAULT_FUNCTION
         then (let (p, h') = new (FunctionObject (DefaultFunction_const 1)) h
               in (this\<lparr>function_coeff := p\<rparr>, h'))
         else (this, h))"

definition DefaultMatrixFormSurf_new_areas ::
  "int \<Rightarrow> int \<Rightarrow> string list \<Rightarrow> real \<Rightarrow> ptr \<Rightarrow> GeomType \<Rightarrow> heap
     \<Rightarrow> DefaultMatrixFormSurf \<times> heap" where
  "DefaultMatrixFormSurf_new_areas i j areas c f_coeff g h =
     (let this = \<lparr>form_i = i, form_j = j, form_areas = areas,
                  const_coeff = c, function_coeff = f_coeff, gt = g\<rparr>
      in if f_coeff = HERMES_DEFAULT_FUNCTION
         then (let (p, h') = new (FunctionObject (DefaultFunction_const 1)) h
               in (this\<lparr>function_coeff := p\<rparr>, h'))
         else (this, h))"

definition DefaultMatrixFormSurf_destroy :: "DefaultMatrixFormSurf \<Rightarrow> heap \<Rightarrow> heap option" where
  "DefaultMatrixFormSurf_destroy this h =
     (if function_coeff this \<noteq> HERMES_DEFAULT_FUNCTION then delete (function_coeff this) h
      else Some h)"

definition DefaultMatrixFormSurf_value ::
  "heap \<Rightarrow> DefaultMatrixFormSurf \<Rightarrow> int \<Rightarrow> (nat \<Rightarrow> real) \<Rightarrow> (int \<Rightarrow> real Func)
     \<Rightarrow> real Func \<Rightarrow> real Func \<Rightarrow> real Geom \<Rightarrow> real option" where
  "DefaultMatrixFormSurf_value h this n wt u_ext u v e =
     map_option (\<lambda>result. const_coeff this * result)
       (if gt this = HERMES_PLANAR
        then accumulate (\<lambda>i. map_option
               (\<lambda>f. wt i * function_value f (geom_x e i) (geom_y e i)
                      * val u i * val v i)
               (function_at h (function_coeff this))) (nat n)
        else if gt this = HERMES_AXISYM_X
        then accumulate (\<lambda>i. map_option
               (\<lambda>f. wt i * geom_y e i * function_value f (geom_x e i) (geom_y e i)
                      * val u i * val v i)
               (function_at h (function_coeff this))) (nat n)
        else accumulate (\<lambda>i. map_option
               (\<lambda>f. wt i * geom_x e i * function_value f (geom_x e i) (geom_y e i)
                      * val u i * val v i)
               (function_at h (function_coeff this))) (nat n))"


subsection \<open>DefaultJacobianFormSurf\<close>

record DefaultJacobianFormSurf =
  form_i :: int
  form_j :: int
  form_areas :: "string list"
  idx_j :: int
  const_coeff :: real
  spline_coeff :: ptr
  gt :: GeomType

definition DefaultJacobianFormSurf_new ::
  "int \<Rightarrow> int \<Rightarrow> string \<Rightarrow> real \<Rightarrow> ptr \<Rightarrow> GeomType \<Rightarrow> heap
     \<Rightarrow> DefaultJacobianFormSurf \<times> heap" where
  "DefaultJacobianFormSurf_new i j area c c_spline g h =
     (let this = \<lparr>form_i = i, form_j = j, form_areas = [area],
                  idx_j = j, const_coeff = c, spline_coeff = c_spline, gt = g\<rparr>
      in if c_spline = HERMES_DEFAULT_SPLINE
         then (let (p, h') = new (SplineObject (CubicSpline_const 1)) h
               in (this\<lparr>spline_coeff := p\<rparr>, h'))
         else (this, h))"

text \<open>
  The constructor for a list of areas has the initialiser list
  \<^verbatim>\<open>MatrixFormSurf(i, j, areas), const_coeff(const_coeff), spline_coeff(spline_coeff), gt(gt)\<close>:
  \<^verbatim>\<open>idx_j\<close> is not in it and \<^verbatim>\<open>spline_coeff\<close> is initialised from itself. Both keep the
  prior content \<open>raw\<close> of the storage.
\<close>

definition DefaultJacobianFormSurf_new_areas ::
  "DefaultJacobianFormSurf \<Rightarrow> int \<Rightarrow> int \<Rightarrow> string list \<Rightarrow> real \<Rightarrow> ptr \<Rightarrow> GeomType \<Rightarrow> heap
     \<Rightarrow> DefaultJacobianFormSurf \<times> heap" where
  "DefaultJacobianFormSurf_new_areas raw i j areas c c_spline g h =
     (let this = \<lparr>form_i = i, form_j = j, form_areas = areas,
                  idx_j = idx_j raw, const_coeff = c, spline_coeff = spline_coeff raw,
                  gt = g\<rparr>
      in if c_spline = HERMES_DEFAULT_SPLINE
         then (let (p, h') = new (SplineObject (CubicSpline_const 1)) h
               in (this\<lparr>spline_coeff := p\<rparr>, h'))
         else (this, h))"

definition DefaultJacobianFormSurf_destroy ::
  "DefaultJacobianFormSurf \<Rightarrow> heap \<Rightarrow> heap option" where
  "DefaultJacobianFormSurf_destroy this h =
     (if spline_coeff this \<noteq> HERMES_DEFAULT_SPLINE then delete (spline_coeff this) h
      else Some h)"

text \<open>The evaluator has one loop and never reads \<^verbatim>\<open>gt\<close> or the geometry \<^verbatim>\<open>e\<close>.\<close>

definition DefaultJacobianFormSurf_value ::
  "heap \<Rightarrow> DefaultJacobianFormSurf \<Rightarrow> int \<Rightarrow> (nat \<Rightarrow> real) \<Rightarrow> (int \<Rightarrow> real Func)
     \<Rightarrow> real Func \<Rightarrow> real Func \<Rightarrow> real Geom \<Rightarrow> real option" where
  "DefaultJacobianFormSurf_value h this n wt u_ext u v e =
     accumulate (\<lambda>i. map_option
       (\<lambda>s. wt i * (const_coeff this * get_derivative s (val (u_ext (idx_j this)) i)
                       * val (u_ext (idx_j this)) i
                     + const_coeff this * get_value s (val (u_ext (idx_j this)) i))
               * val u i * val v i)
       (spline_at h (spline_coeff this))) (nat n)"


subsection \<open>DefaultVectorFormSurf\<close>

record DefaultVectorFormSurf =
  form_i :: int
  form_areas :: "string list"
  const_coeff :: real
  function_coeff :: ptr
  gt :: GeomType

definition DefaultVectorFormSurf_new ::
  "int \<Rightarrow> string \<Rightarrow> real \<Rightarrow> ptr \<Rightarrow> GeomType \<Rightarrow> heap
     \<Rightarrow> DefaultVectorFormSurf \<times> heap" where
  "DefaultVectorFormSurf_new i area c f_coeff g h =
     (let this = \<lparr>form_i = i, form_areas = [area],
                  const_coeff = c, function_coeff = f_coeff, gt = g\<rparr>
      in if f_coeff = HERMES_DEFAULT_FUNCTION
         then (let (p, h') = new (FunctionObject (DefaultFunction_const 1)) h
               in (this\<lparr>function_coeff := p\<rparr>, h'))
         else (this, h))"

definition DefaultVectorFormSurf_new_areas ::
  "int \<Rightarrow> string list \<Rightarrow> real \<Rightarrow> ptr \<Rightarrow> GeomType \<Rightarrow> heap
     \<Rightarrow> DefaultVectorFormSurf \<times> heap" where
  "DefaultVectorFormSurf_new_areas i areas c f_coeff g h =
     (let this = \<lparr>form_i = i, form_areas = areas,
                  const_coeff = c, function_coeff = f_coeff, gt = g\<rparr>
      in if f_coeff = HERMES_DEFAULT_FUNCTION
         then (let (p, h') = new (FunctionObject (DefaultFunction_const 1)) h
               in (this\<lparr>function_coeff := p\<rparr>, h'))
         else (this, h))"

definition DefaultVectorFormSurf_destroy :: "DefaultVectorFormSurf \<Rightarrow> heap \<Rightarrow> heap option" where
  "DefaultVectorFormSurf_destroy this h =
     (if function_coeff this \<noteq> HERMES_DEFAULT_FUNCTION then delete (function_coeff this) h
      else Some h)"

definition DefaultVectorFormSurf_value ::
  "heap \<Rightarrow> DefaultVectorFormSurf \<Rightarrow> int \<Rightarrow> (nat \<Rightarrow> real) \<Rightarrow> (int \<Rightarrow> real Func)
     \<Rightarrow> real Func \<Rightarrow> real Geom \<Rightarrow> real option" where
  "DefaultVectorFormSurf_value h this n wt u_ext v e =
     map_option (\<lambda>result. const_coeff this * result)
       (if gt this = HERMES_PLANAR
        then accumulate (\<lambda>i. map_option
               (\<lambda>f. wt i * function_value f (geom_x e i) (geom_y e i)
                      * val v i)
               (function_at h (function_coeff this))) (nat n)
        else if gt this = HERMES_AXISYM_X
        then accumulate (\<lambda>i. map_option
               (\<lambda>f. wt i * geom_y e i * function_value f (geom_x e i) (geom_y e i)
                      * val v i)
               (function_at h (function_coeff this))) (nat n)
        else accumulate (\<lambda>i. map_option
               (\<lambda>f. wt i * geom_x e i * function_value f (geom_x e i) (geom_y e i)
                      * val v i)
               (function_at h (function_coeff this))) (nat n))"


subsection \<open>DefaultResidualSurf\<close>

record DefaultResidualSurf =
  form_i :: int
  form_areas :: "string list"
  idx_i :: int
  const_coeff :: real
  function_coeff :: ptr
  gt :: GeomType

definition DefaultResidualSurf_new ::
  "int \<Rightarrow> string \<Rightarrow> real \<Rightarrow> ptr \<Rightarrow> GeomType \<Rightarrow> heap
     \<Rightarrow> DefaultResidualSurf \<times> heap" where
  "DefaultResidualSurf_new i area c f_coeff g h =
     (let this = \<lparr>form_i = i, form_areas = [area], idx_i = i,
                  const_coeff = c, function_coeff = f_coeff, gt = g\<rparr>
      in if f_coeff = HERMES_DEFAULT_FUNCTION
         then (let (p, h') = new (FunctionObject (DefaultFunction_const 1)) h
               in (this\<lparr>function_coeff := p\<rparr>, h'))
         else (this, h))"

definition DefaultResidualSurf_new_areas ::
  "int \<Rightarrow> string list \<Rightarrow> real \<Rightarrow> ptr \<Rightarrow> GeomType \<Rightarrow> heap
     \<Rightarrow> DefaultResidualSurf \<times> heap" where
  "DefaultResidualSurf_new_areas i areas c f_coeff g h =
     (let this = \<lparr>form_i = i, form_areas = areas, idx_i = i,
                  const_coeff = c, function_coeff = f_coeff, gt = g\<rparr>
      in if f_coeff = HERMES_DEFAULT_FUNCTION
         then (let (p, h') = new (FunctionObject (DefaultFunction_const 1)) h
               in (this\<lparr>function_coeff := p\<rparr>, h'))
         else (this, h))"

definition DefaultResidualSurf_destroy :: "DefaultResidualSurf \<Rightarrow> heap \<Rightarrow> heap option" where
  "DefaultResidualSurf_destroy this h =
     (if function_coeff this \<noteq> HERMES_DEFAULT_FUNCTION then delete (function_coeff this) h
      else Some h)"

definition DefaultResidualSurf_value ::
  "heap \<Rightarrow> DefaultResidualSurf \<Rightarrow> int \<Rightarrow> (nat \<Rightarrow> real) \<Rightarrow> (int \<Rightarrow> real Func)
     \<Rightarrow> real Func \<Rightarrow> real Geom \<Rightarrow> real option" where
  "DefaultResidualSurf_value h this n wt u_ext v e =
     map_option (\<lambda>result. const_coeff this * result)
       (if gt this = HERMES_PLANAR
        then accumulate (\<lambda>i. map_option
               (\<lambda>f. wt i * function_value f (geom_x e i) (geom_y e i)
                      * val (u_ext (idx_i this)) i * val v i)
               (function_at h (function_coeff this))) (nat n)
        else if gt this = HERMES_AXISYM_X
        then accumulate (\<lambda>i. map_option
               (\<lambda>f. wt i * geom_y e i * function_value f (geom_x e i) (geom_y e i)
                      * val (u_ext (idx_i this)) i * val v i)
               (function_at h (function_coeff this))) (nat n)
        else accumulate (\<lambda>i. map_option
               (\<lambda>f. wt i * geom_x e i * function_value f (geom_x e i) (geom_y e i)
                      * val (u_ext (idx_i this)) i * val v i)
               (function_at h (function_coeff this))) (nat n))"



section \<open>Composite forms\<close>

text \<open>
  \<^verbatim>\<open>DefaultWeakFormLaplace\<close> registers one diffusion Jacobian and one diffusion residual,
  and hands the same \<^verbatim>\<open>spline_coeff\<close> to both.
\<close>

definition DefaultWeakFormLaplace_new ::
  "string \<Rightarrow> real \<Rightarrow> ptr \<Rightarrow> GeomType \<Rightarrow> heap
     \<Rightarrow> (DefaultJacobianDiffusion \<times> DefaultResidualDiffusion) \<times> heap" where
  "DefaultWeakFormLaplace_new area c spline g h =
     (let (jacobian, h1) = DefaultJacobianDiffusion_new 0 0 area c spline HERMES_SYM g h;
          (residual, h2) = DefaultResidualDiffusion_new 0 area c spline g h1
      in ((jacobian, residual), h2))"


section \<open>The Newton driver\<close>

text \<open>
  The test program of the example \<^verbatim>\<open>16-newton-elliptic-1\<close>. The mesh, the space, the
  assembler and the linear solver are outside the program text; the driver sees them
  through two functions. \<open>assemble coeff_vec\<close> is the residual vector that
  \<^verbatim>\<open>dp.assemble(coeff_vec, matrix, rhs, false)\<close> leaves in \<^verbatim>\<open>rhs\<close>. \<open>solve coeff_vec rhs\<close> is the
  linear solve of the system assembled at \<open>coeff_vec\<close> with right-hand side \<open>rhs\<close>:
  \<open>None\<close> when \<^verbatim>\<open>solver->solve()\<close> returns false, and otherwise the array that
  \<^verbatim>\<open>solver->get_solution()\<close> returns. The number of degrees of freedom is the length of
  the coefficient vector.
\<close>

definition NEWTON_TOL :: real where
  "NEWTON_TOL = 1 / 1000000"

definition NEWTON_MAX_ITER :: int where
  "NEWTON_MAX_ITER = 7"

definition INIT_COND_CONST :: real where
  "INIT_COND_CONST = 3"

definition lam :: "real \<Rightarrow> real" where
  "lam u = 1 + u ^ 4"

definition dlam_du :: "real \<Rightarrow> real" where
  "dlam_du u = 4 * u ^ 3"

definition change_sign :: "real list \<Rightarrow> real list" where
  "change_sign rhs = map uminus rhs"

text \<open>
  Modelled from the spec: \<^verbatim>\<open>get_l2_norm\<close> is a library function outside the program text,
  the Euclidean norm of the vector.
\<close>

definition get_l2_norm :: "real list \<Rightarrow> real" where
  "get_l2_norm rhs = sqrt (\<Sum>x\<leftarrow>rhs. x\<^sup>2)"

datatype exit_code = ERR_SUCCESS | ERR_FAILURE

text \<open>
  The loop \<^verbatim>\<open>while (1)\<close>, entered with the counter \<open>it\<close>, the flag \<open>success\<close> and the
  coefficient vector. It ends by \<^verbatim>\<open>break\<close>, with the flag and the vector, or in one of
  the two calls of \<^verbatim>\<open>error\<close>.
\<close>

function Newton_loop ::
  "(real list \<Rightarrow> real list) \<Rightarrow> (real list \<Rightarrow> real list \<Rightarrow> (nat \<Rightarrow> real) option)
     \<Rightarrow> real \<Rightarrow> int \<Rightarrow> int \<Rightarrow> bool \<Rightarrow> real list \<Rightarrow> error + bool \<times> real list" where
  "Newton_loop assemble solve tol max_iter it success coeff_vec =
     (let ndof = length coeff_vec;
          rhs = change_sign (assemble coeff_vec);
          res_l2_norm = get_l2_norm rhs
      in if res_l2_norm < tol \<or> it > max_iter then Inr (success, coeff_vec)
         else
           (case solve coeff_vec rhs of
              None \<Rightarrow> Inl (Error ''Matrix solver failed.\<newline>'')
            | Some solution \<Rightarrow>
                (let coeff_vec' = map (\<lambda>i. coeff_vec ! i + solution i) [0..<ndof]
                 in if it \<ge> max_iter then Inl (Error ''Newton method did not converge.'')
                    else Newton_loop assemble solve tol max_iter (it + 1) True coeff_vec')))"
  by pat_completeness auto
termination
  by (relation "measure (\<lambda>(assemble, solve, tol, max_iter, it, success, coeff_vec).
                  nat (max_iter - it))") auto

declare Newton_loop.simps [simp del]

text \<open>
  The program from the start of the iteration on, with the tolerance and the iteration
  budget as arguments: the loop, then \<^verbatim>\<open>Solution::vector_to_solution\<close> (the field is the
  coefficient vector) and the exit code chosen by \<^verbatim>\<open>success\<close>. \<open>coeff_vec\<close> is the projection
  of the initial condition.
\<close>

definition Newton_run ::
  "real \<Rightarrow> int \<Rightarrow> (real list \<Rightarrow> real list)
     \<Rightarrow> (real list \<Rightarrow> real list \<Rightarrow> (nat \<Rightarrow> real) option)
     \<Rightarrow> real list \<Rightarrow> error + exit_code \<times> real list" where
  "Newton_run tol max_iter assemble solve coeff_vec =
     (case Newton_loop assemble solve tol max_iter 1 False coeff_vec of
        Inl e \<Rightarrow> Inl e
      | Inr (success, sln) \<Rightarrow>
          if success then Inr (ERR_SUCCESS, sln) else Inr (ERR_FAILURE, sln))"

definition main ::
  "(real list \<Rightarrow> real list) \<Rightarrow> (real list \<Rightarrow> real list \<Rightarrow> (nat \<Rightarrow> real) option)
     \<Rightarrow> real list \<Rightarrow> error + exit_code \<times> real list" where
  "main assemble solve coeff_vec =
     Newton_run NEWTON_TOL NEWTON_MAX_ITER assemble solve coeff_vec"


section \<open>The formulas of the specification\<close>

text \<open>
  The geometry factor: 1 in the planar mode, the \<open>y\<close> coordinate of the quadrature point
  in the mode axisymmetric about \<open>x\<close>, the \<open>x\<close> coordinate in the mode axisymmetric
  about \<open>y\<close>. The numeric value of a term is the sum over the quadrature points of weight
  times geometry factor times integrand.
\<close>

definition geometry_factor :: "GeomType \<Rightarrow> real Geom \<Rightarrow> nat \<Rightarrow> real" where
  "geometry_factor g e i =
     (case g of
        HERMES_PLANAR \<Rightarrow> 1
      | HERMES_AXISYM_X \<Rightarrow> geom_y e i
      | HERMES_AXISYM_Y \<Rightarrow> geom_x e i)"

definition numeric_value ::
  "GeomType \<Rightarrow> int \<Rightarrow> (nat \<Rightarrow> real) \<Rightarrow> real Geom \<Rightarrow> (nat \<Rightarrow> real) \<Rightarrow> real" where
  "numeric_value g n wt e integrand =
     (\<Sum>i<nat n. wt i * geometry_factor g e i * integrand i)"

text \<open>
  The same summation in the algebra of orders, in the planar mode: the degree of the sum
  is the largest degree of a summand, and at least 0.
\<close>

definition planar_order :: "int \<Rightarrow> (nat \<Rightarrow> int) \<Rightarrow> int" where
  "planar_order n degree = Max (insert 0 (degree ` {..<nat n}))"

text \<open>
  The coefficient vector after \<open>k\<close> rounds of linear solve and update from \<open>coeff_vec\<close>,
  with no test in between; \<open>None\<close> when one of the \<open>k\<close> linear solves fails. The residual
  norm that the convergence test reads at a coefficient vector is \<open>residual_norm\<close>.
\<close>

definition residual_norm :: "(real list \<Rightarrow> real list) \<Rightarrow> real list \<Rightarrow> real" where
  "residual_norm assemble coeff_vec = get_l2_norm (change_sign (assemble coeff_vec))"

fun Newton_iterate ::
  "(real list \<Rightarrow> real list) \<Rightarrow> (real list \<Rightarrow> real list \<Rightarrow> (nat \<Rightarrow> real) option)
     \<Rightarrow> nat \<Rightarrow> real list \<Rightarrow> real list option" where
  "Newton_iterate assemble solve 0 coeff_vec = Some coeff_vec"
| "Newton_iterate assemble solve (Suc k) coeff_vec =
     (case solve coeff_vec (change_sign (assemble coeff_vec)) of
        None \<Rightarrow> None
      | Some solution \<Rightarrow>
          Newton_iterate assemble solve k
            (map (\<lambda>i. coeff_vec ! i + solution i) [0..<length coeff_vec]))"


section \<open>The quadrature loop as a sum\<close>

lemma accumulate_Some: "accumulate (\<lambda>i. Some (f i)) n = Some (\<Sum>i<n. f i)"
  by (induction n) simp_all

lemma accumulate_None: "accumulate (\<lambda>i. None) n = (if n = 0 then Some 0 else None)"
  by (cases n) (simp_all split: option.splits)

lemma accumulate_map_option:
  "accumulate (\<lambda>i. map_option (\<lambda>s. f s i) p) n =
     (if n = 0 then Some 0 else map_option (\<lambda>s. \<Sum>i<n. f s i) p)"
  by (cases p) (simp_all add: accumulate_None accumulate_Some)


section \<open>The diffusion Jacobian\<close>

text \<open>
  C1: when the spline pointer of the term is valid and points to the coefficient model
  \<open>kappa\<close>, the numeric value of \<^verbatim>\<open>DefaultJacobianDiffusion\<close> is, for every point count,
  weights, previous iterates, trial function, test function and geometry, the sum over
  the quadrature points of weight times geometry factor times
  \<open>const_coeff * kappa'(u_prev) * u * (grad u_prev . grad v)
    + const_coeff * kappa(u_prev) * (grad u . grad v)\<close>,
  where \<open>u_prev\<close> is the previous iterate of index \<open>idx_j\<close>: the linearization term and
  the frozen-coefficient term, under the same constant and the same geometry factor.
\<close>

theorem DefaultJacobianDiffusion_value_formula:
  assumes "spline_at h (DefaultJacobianDiffusion.spline_coeff this) = Some kappa"
  shows "DefaultJacobianDiffusion_value h this n wt u_ext u v e =
     Some (numeric_value (DefaultJacobianDiffusion.gt this) n wt e
       (\<lambda>i. DefaultJacobianDiffusion.const_coeff this
               * get_derivative kappa (val (u_ext (DefaultJacobianDiffusion.idx_j this)) i)
               * val u i
               * (dx (u_ext (DefaultJacobianDiffusion.idx_j this)) i * dx v i
                  + dy (u_ext (DefaultJacobianDiffusion.idx_j this)) i * dy v i)
             + DefaultJacobianDiffusion.const_coeff this
               * get_value kappa (val (u_ext (DefaultJacobianDiffusion.idx_j this)) i)
               * (dx u i * dx v i + dy u i * dy v i)))"
  using assms
  by (cases "DefaultJacobianDiffusion.gt this")
     (simp_all add: DefaultJacobianDiffusion_value_def numeric_value_def geometry_factor_def
        accumulate_map_option accumulate_Some)

theorem DefaultJacobianDiffusion_value_formula_witness:
  "spline_at [Some (SplineObject \<lparr>get_value = lam, get_derivative = dlam_du\<rparr>)]
     (DefaultJacobianDiffusion.spline_coeff
        (fst (DefaultJacobianDiffusion_new 0 0 ''a'' 2 (Ptr 0) HERMES_SYM HERMES_AXISYM_X
               [Some (SplineObject \<lparr>get_value = lam, get_derivative = dlam_du\<rparr>)])))
     = Some \<lparr>get_value = lam, get_derivative = dlam_du\<rparr>
   \<and> DefaultJacobianDiffusion_value
       [Some (SplineObject \<lparr>get_value = lam, get_derivative = dlam_du\<rparr>)]
       (fst (DefaultJacobianDiffusion_new 0 0 ''a'' 2 (Ptr 0) HERMES_SYM HERMES_AXISYM_X
               [Some (SplineObject \<lparr>get_value = lam, get_derivative = dlam_du\<rparr>)]))
       2 (\<lambda>i. 1 / 2)
       (\<lambda>k. \<lparr>val = (\<lambda>i. 1), dx = (\<lambda>i. 1), dy = (\<lambda>i. 0)\<rparr>)
       \<lparr>val = (\<lambda>i. 1), dx = (\<lambda>i. 1), dy = (\<lambda>i. 1)\<rparr>
       \<lparr>val = (\<lambda>i. 1), dx = (\<lambda>i. 1), dy = (\<lambda>i. 1)\<rparr>
       \<lparr>geom_x = (\<lambda>i. 3), geom_y = (\<lambda>i. real i + 1)\<rparr> = Some 24"
proof -
  let ?h = "[Some (SplineObject \<lparr>get_value = lam, get_derivative = dlam_du\<rparr>)]"
  let ?t = "fst (DefaultJacobianDiffusion_new 0 0 ''a'' 2 (Ptr 0) HERMES_SYM HERMES_AXISYM_X ?h)"
  have t: "?t = \<lparr>DefaultJacobianDiffusion.form_i = 0, form_j = 0, form_areas = [''a''],
                 form_sym = HERMES_SYM, idx_j = 0, const_coeff = 2, spline_coeff = Ptr 0,
                 gt = HERMES_AXISYM_X\<rparr>"
    by (simp add: DefaultJacobianDiffusion_new_def HERMES_DEFAULT_SPLINE_def)
  have valid: "spline_at ?h (DefaultJacobianDiffusion.spline_coeff ?t)
                 = Some \<lparr>get_value = lam, get_derivative = dlam_du\<rparr>"
    by (simp add: t spline_at_def)
  have "DefaultJacobianDiffusion_value ?h ?t 2 (\<lambda>i. 1 / 2)
       (\<lambda>k. \<lparr>val = (\<lambda>i. 1), dx = (\<lambda>i. 1), dy = (\<lambda>i. 0)\<rparr>)
       \<lparr>val = (\<lambda>i. 1), dx = (\<lambda>i. 1), dy = (\<lambda>i. 1)\<rparr>
       \<lparr>val = (\<lambda>i. 1), dx = (\<lambda>i. 1), dy = (\<lambda>i. 1)\<rparr>
       \<lparr>geom_x = (\<lambda>i. 3), geom_y = (\<lambda>i. real i + 1)\<rparr> = Some 24"
    unfolding DefaultJacobianDiffusion_value_formula [OF valid]
    by (simp add: t numeric_value_def geometry_factor_def lam_def dlam_du_def
          lessThan_Suc eval_nat_numeral)
  with valid show ?thesis by blast
qed


section \<open>The terms with a geometry branch\<close>

text \<open>
  Each of these evaluators has the three-way branch on the geometry mode, and its value is
  the weighted sum with the geometry factor, for a valid coefficient pointer.
\<close>

lemma DefaultMatrixFormVol_value_formula:
  assumes "function_at h (DefaultMatrixFormVol.function_coeff this) = Some f"
  shows "DefaultMatrixFormVol_value h this n wt u_ext u v e =
     Some (DefaultMatrixFormVol.const_coeff this
           * numeric_value (DefaultMatrixFormVol.gt this) n wt e
               (\<lambda>i. function_value f (geom_x e i) (geom_y e i) * (val u i * val v i)))"
  using assms
  by (cases "DefaultMatrixFormVol.gt this")
     (simp_all add: DefaultMatrixFormVol_value_def numeric_value_def geometry_factor_def
        accumulate_Some mult.assoc)

lemma DefaultVectorFormVol_value_formula:
  assumes "function_at h (DefaultVectorFormVol.function_coeff this) = Some f"
  shows "DefaultVectorFormVol_value h this n wt u_ext v e =
     Some (DefaultVectorFormVol.const_coeff this
           * numeric_value (DefaultVectorFormVol.gt this) n wt e
               (\<lambda>i. function_value f (geom_x e i) (geom_y e i) * (val v i)))"
  using assms
  by (cases "DefaultVectorFormVol.gt this")
     (simp_all add: DefaultVectorFormVol_value_def numeric_value_def geometry_factor_def
        accumulate_Some mult.assoc)

lemma DefaultResidualVol_value_formula:
  assumes "function_at h (DefaultResidualVol.function_coeff this) = Some f"
  shows "DefaultResidualVol_value h this n wt u_ext v e =
     Some (DefaultResidualVol.const_coeff this
           * numeric_value (DefaultResidualVol.gt this) n wt e
               (\<lambda>i. function_value f (geom_x e i) (geom_y e i) * (val (u_ext (DefaultResidualVol.idx_i this)) i * val v i)))"
  using assms
  by (cases "DefaultResidualVol.gt this")
     (simp_all add: DefaultResidualVol_value_def numeric_value_def geometry_factor_def
        accumulate_Some mult.assoc)

lemma DefaultMatrixFormSurf_value_formula:
  assumes "function_at h (DefaultMatrixFormSurf.function_coeff this) = Some f"
  shows "DefaultMatrixFormSurf_value h this n wt u_ext u v e =
     Some (DefaultMatrixFormSurf.const_coeff this
           * numeric_value (DefaultMatrixFormSurf.gt this) n wt e
               (\<lambda>i. function_value f (geom_x e i) (geom_y e i) * (val u i * val v i)))"
  using assms
  by (cases "DefaultMatrixFormSurf.gt this")
     (simp_all add: DefaultMatrixFormSurf_value_def numeric_value_def geometry_factor_def
        accumulate_Some mult.assoc)

lemma DefaultVectorFormSurf_value_formula:
  assumes "function_at h (DefaultVectorFormSurf.function_coeff this) = Some f"
  shows "DefaultVectorFormSurf_value h this n wt u_ext v e =
     Some (DefaultVectorFormSurf.const_coeff this
           * numeric_value (DefaultVectorFormSurf.gt this) n wt e
               (\<lambda>i. function_value f (geom_x e i) (geom_y e i) * (val v i)))"
  using assms
  by (cases "DefaultVectorFormSurf.gt this")
     (simp_all add: DefaultVectorFormSurf_value_def numeric_value_def geometry_factor_def
        accumulate_Some mult.assoc)

lemma DefaultResidualSurf_value_formula:
  assumes "function_at h (DefaultResidualSurf.function_coeff this) = Some f"
  shows "DefaultResidualSurf_value h this n wt u_ext v e =
     Some (DefaultResidualSurf.const_coeff this
           * numeric_value (DefaultResidualSurf.gt this) n wt e
               (\<lambda>i. function_value f (geom_x e i) (geom_y e i) * (val (u_ext (DefaultResidualSurf.idx_i this)) i * val v i)))"
  using assms
  by (cases "DefaultResidualSurf.gt this")
     (simp_all add: DefaultResidualSurf_value_def numeric_value_def geometry_factor_def
        accumulate_Some mult.assoc)

lemma DefaultResidualDiffusion_value_formula:
  assumes "spline_at h (DefaultResidualDiffusion.spline_coeff this) = Some kappa"
  shows "DefaultResidualDiffusion_value h this n wt u_ext v e =
     Some (numeric_value (DefaultResidualDiffusion.gt this) n wt e
       (\<lambda>i. DefaultResidualDiffusion.const_coeff this
               * get_value kappa (val (u_ext (DefaultResidualDiffusion.idx_i this)) i)
               * (dx (u_ext (DefaultResidualDiffusion.idx_i this)) i * dx v i
                  + dy (u_ext (DefaultResidualDiffusion.idx_i this)) i * dy v i)))"
  using assms
  by (cases "DefaultResidualDiffusion.gt this")
     (simp_all add: DefaultResidualDiffusion_value_def numeric_value_def geometry_factor_def
        accumulate_Some mult.assoc)

text \<open>
  The advection evaluators have one loop and no geometry factor; their terms exist in the
  planar mode only.
\<close>

lemma DefaultJacobianAdvection_value_formula:
  assumes "spline_at h (DefaultJacobianAdvection.spline_coeff1 this) = Some kappa1"
    and "spline_at h (DefaultJacobianAdvection.spline_coeff2 this) = Some kappa2"
  shows "DefaultJacobianAdvection_value h this n wt u_ext u v e =
     Some (numeric_value HERMES_PLANAR n wt e
       (\<lambda>i. DefaultJacobianAdvection.const_coeff1 this
               * get_derivative kappa1 (val (u_ext (DefaultJacobianAdvection.idx_j this)) i)
               * val u i * dx (u_ext (DefaultJacobianAdvection.idx_j this)) i * val v i
             + DefaultJacobianAdvection.const_coeff1 this
               * get_value kappa1 (val (u_ext (DefaultJacobianAdvection.idx_j this)) i)
               * dx u i * val v i
             + DefaultJacobianAdvection.const_coeff2 this
               * get_derivative kappa2 (val (u_ext (DefaultJacobianAdvection.idx_j this)) i)
               * val u i * dy (u_ext (DefaultJacobianAdvection.idx_j this)) i * val v i
             + DefaultJacobianAdvection.const_coeff2 this
               * get_value kappa2 (val (u_ext (DefaultJacobianAdvection.idx_j this)) i)
               * dy u i * val v i))"
  using assms
  by (simp add: DefaultJacobianAdvection_value_def numeric_value_def geometry_factor_def
        accumulate_Some)

lemma DefaultResidualAdvection_value_formula:
  assumes "spline_at h (DefaultResidualAdvection.spline_coeff1 this) = Some kappa1"
    and "spline_at h (DefaultResidualAdvection.spline_coeff2 this) = Some kappa2"
  shows "DefaultResidualAdvection_value h this n wt u_ext v e =
     Some (numeric_value HERMES_PLANAR n wt e
       (\<lambda>i. DefaultResidualAdvection.const_coeff1 this
               * get_value kappa1 (val (u_ext (DefaultResidualAdvection.idx_i this)) i)
               * (dx (u_ext (DefaultResidualAdvection.idx_i this)) i * val v i)
             + DefaultResidualAdvection.const_coeff2 this
               * get_value kappa2 (val (u_ext (DefaultResidualAdvection.idx_i this)) i)
               * (dy (u_ext (DefaultResidualAdvection.idx_i this)) i * val v i)))"
  using assms
  by (simp add: DefaultResidualAdvection_value_def numeric_value_def geometry_factor_def
        accumulate_Some Let_def)


section \<open>The surface Jacobian and the geometry mode\<close>

text \<open>
  \<^verbatim>\<open>DefaultJacobianFormSurf::value\<close> computes the planar sum in every geometry mode.
\<close>

lemma DefaultJacobianFormSurf_value_any_mode:
  assumes "spline_at h (DefaultJacobianFormSurf.spline_coeff this) = Some kappa"
  shows "DefaultJacobianFormSurf_value h this n wt u_ext u v e =
     Some (numeric_value HERMES_PLANAR n wt e
       (\<lambda>i. (DefaultJacobianFormSurf.const_coeff this
                * get_derivative kappa (val (u_ext (DefaultJacobianFormSurf.idx_j this)) i)
                * val (u_ext (DefaultJacobianFormSurf.idx_j this)) i
              + DefaultJacobianFormSurf.const_coeff this
                * get_value kappa (val (u_ext (DefaultJacobianFormSurf.idx_j this)) i))
             * val u i * val v i))"
  using assms
  by (simp add: DefaultJacobianFormSurf_value_def numeric_value_def geometry_factor_def
        accumulate_Some algebra_simps)

text \<open>
  C2: the claim is that the numeric value of every term is the sum over the quadrature
  points of weight times geometry factor times integrand, the factor being the \<open>y\<close>
  coordinate in the mode axisymmetric about \<open>x\<close>, also for \<^verbatim>\<open>DefaultJacobianFormSurf\<close>.
  The evaluator of a \<^verbatim>\<open>DefaultJacobianFormSurf\<close> built in the mode axisymmetric about \<open>x\<close>
  with constant 1 and the default spline, on one quadrature point of weight 1 at
  \<open>(x, y) = (3, 2)\<close> with previous iterate 0 and trial and test value 1, returns 1; the sum
  with the geometry factor is 2.
\<close>

theorem DefaultJacobianFormSurf_value_axisym_unscaled:
  "DefaultJacobianFormSurf_value
     (snd (DefaultJacobianFormSurf_new 0 0 ''a'' 1 HERMES_DEFAULT_SPLINE HERMES_AXISYM_X []))
     (fst (DefaultJacobianFormSurf_new 0 0 ''a'' 1 HERMES_DEFAULT_SPLINE HERMES_AXISYM_X []))
     1 (\<lambda>i. 1)
     (\<lambda>k. \<lparr>val = (\<lambda>i. 0), dx = (\<lambda>i. 0), dy = (\<lambda>i. 0)\<rparr>)
     \<lparr>val = (\<lambda>i. 1), dx = (\<lambda>i. 0), dy = (\<lambda>i. 0)\<rparr>
     \<lparr>val = (\<lambda>i. 1), dx = (\<lambda>i. 0), dy = (\<lambda>i. 0)\<rparr>
     \<lparr>geom_x = (\<lambda>i. 3), geom_y = (\<lambda>i. 2)\<rparr> = Some 1
   \<and> numeric_value HERMES_AXISYM_X 1 (\<lambda>i. 1) \<lparr>geom_x = (\<lambda>i. 3), geom_y = (\<lambda>i. 2)\<rparr>
       (\<lambda>i. (1 * get_derivative (CubicSpline_const 1) 0 * 0
                + 1 * get_value (CubicSpline_const 1) 0) * 1 * 1) = 2"
  by (simp add: DefaultJacobianFormSurf_new_def DefaultJacobianFormSurf_value_def
        HERMES_DEFAULT_SPLINE_def new_def spline_at_def CubicSpline_const_def
        numeric_value_def geometry_factor_def)


section \<open>Homogeneity in the constant coefficient\<close>

lemma DefaultMatrixFormVol_new_homogeneous:
  "DefaultMatrixFormVol_value (snd (DefaultMatrixFormVol_new i j area c f_coeff sy g h))
      (fst (DefaultMatrixFormVol_new i j area c f_coeff sy g h)) n wt u_ext u v e =
    map_option (\<lambda>result. c * result)
      (DefaultMatrixFormVol_value (snd (DefaultMatrixFormVol_new i j area 1 f_coeff sy g h))
         (fst (DefaultMatrixFormVol_new i j area 1 f_coeff sy g h)) n wt u_ext u v e)"
  by (simp add: DefaultMatrixFormVol_new_def DefaultMatrixFormVol_value_def Let_def split_def
        option.map_comp comp_def)

lemma DefaultMatrixFormVol_new_areas_homogeneous:
  "DefaultMatrixFormVol_value (snd (DefaultMatrixFormVol_new_areas i j areas c f_coeff sy g h))
      (fst (DefaultMatrixFormVol_new_areas i j areas c f_coeff sy g h)) n wt u_ext u v e =
    map_option (\<lambda>result. c * result)
      (DefaultMatrixFormVol_value (snd (DefaultMatrixFormVol_new_areas i j areas 1 f_coeff sy g h))
         (fst (DefaultMatrixFormVol_new_areas i j areas 1 f_coeff sy g h)) n wt u_ext u v e)"
  by (simp add: DefaultMatrixFormVol_new_areas_def DefaultMatrixFormVol_value_def Let_def split_def
        option.map_comp comp_def)

lemma DefaultMatrixFormVol_value_no_points:
  "DefaultMatrixFormVol_value h this 0 wt u_ext u v e = Some 0"
  by (simp add: DefaultMatrixFormVol_value_def)

lemma DefaultVectorFormVol_new_homogeneous:
  "DefaultVectorFormVol_value (snd (DefaultVectorFormVol_new i area c f_coeff g h))
      (fst (DefaultVectorFormVol_new i area c f_coeff g h)) n wt u_ext v e =
    map_option (\<lambda>result. c * result)
      (DefaultVectorFormVol_value (snd (DefaultVectorFormVol_new i area 1 f_coeff g h))
         (fst (DefaultVectorFormVol_new i area 1 f_coeff g h)) n wt u_ext v e)"
  by (simp add: DefaultVectorFormVol_new_def DefaultVectorFormVol_value_def Let_def split_def
        option.map_comp comp_def)

lemma DefaultVectorFormVol_new_areas_homogeneous:
  "DefaultVectorFormVol_value (snd (DefaultVectorFormVol_new_areas i areas c f_coeff g h))
      (fst (DefaultVectorFormVol_new_areas i areas c f_coeff g h)) n wt u_ext v e =
    map_option (\<lambda>result. c * result)
      (DefaultVectorFormVol_value (snd (DefaultVectorFormVol_new_areas i areas 1 f_coeff g h))
         (fst (DefaultVectorFormVol_new_areas i areas 1 f_coeff g h)) n wt u_ext v e)"
  by (simp add: DefaultVectorFormVol_new_areas_def DefaultVectorFormVol_value_def Let_def split_def
        option.map_comp comp_def)

lemma DefaultVectorFormVol_value_no_points:
  "DefaultVectorFormVol_value h this 0 wt u_ext v e = Some 0"
  by (simp add: DefaultVectorFormVol_value_def)

lemma DefaultResidualVol_new_homogeneous:
  "DefaultResidualVol_value (snd (DefaultResidualVol_new i area c f_coeff g h))
      (fst (DefaultResidualVol_new i area c f_coeff g h)) n wt u_ext v e =
    map_option (\<lambda>result. c * result)
      (DefaultResidualVol_value (snd (DefaultResidualVol_new i area 1 f_coeff g h))
         (fst (DefaultResidualVol_new i area 1 f_coeff g h)) n wt u_ext v e)"
  by (simp add: DefaultResidualVol_new_def DefaultResidualVol_value_def Let_def split_def
        option.map_comp comp_def)

lemma DefaultResidualVol_new_areas_homogeneous:
  "DefaultResidualVol_value (snd (DefaultResidualVol_new_areas i areas c f_coeff g h))
      (fst (DefaultResidualVol_new_areas i areas c f_coeff g h)) n wt u_ext v e =
    map_option (\<lambda>result. c * result)
      (DefaultResidualVol_value (snd (DefaultResidualVol_new_areas i areas 1 f_coeff g h))
         (fst (DefaultResidualVol_new_areas i areas 1 f_coeff g h)) n wt u_ext v e)"
  by (simp add: DefaultResidualVol_new_areas_def DefaultResidualVol_value_def Let_def split_def
        option.map_comp comp_def)

lemma DefaultResidualVol_value_no_points:
  "DefaultResidualVol_value h this 0 wt u_ext v e = Some 0"
  by (simp add: DefaultResidualVol_value_def)

lemma DefaultMatrixFormSurf_new_homogeneous:
  "DefaultMatrixFormSurf_value (snd (DefaultMatrixFormSurf_new i j area c f_coeff g h))
      (fst (DefaultMatrixFormSurf_new i j area c f_coeff g h)) n wt u_ext u v e =
    map_option (\<lambda>result. c * result)
      (DefaultMatrixFormSurf_value (snd (DefaultMatrixFormSurf_new i j area 1 f_coeff g h))
         (fst (DefaultMatrixFormSurf_new i j area 1 f_coeff g h)) n wt u_ext u v e)"
  by (simp add: DefaultMatrixFormSurf_new_def DefaultMatrixFormSurf_value_def Let_def split_def
        option.map_comp comp_def)

lemma DefaultMatrixFormSurf_new_areas_homogeneous:
  "DefaultMatrixFormSurf_value (snd (DefaultMatrixFormSurf_new_areas i j areas c f_coeff g h))
      (fst (DefaultMatrixFormSurf_new_areas i j areas c f_coeff g h)) n wt u_ext u v e =
    map_option (\<lambda>result. c * result)
      (DefaultMatrixFormSurf_value (snd (DefaultMatrixFormSurf_new_areas i j areas 1 f_coeff g h))
         (fst (DefaultMatrixFormSurf_new_areas i j areas 1 f_coeff g h)) n wt u_ext u v e)"
  by (simp add: DefaultMatrixFormSurf_new_areas_def DefaultMatrixFormSurf_value_def Let_def split_def
        option.map_comp comp_def)

lemma DefaultMatrixFormSurf_value_no_points:
  "DefaultMatrixFormSurf_value h this 0 wt u_ext u v e = Some 0"
  by (simp add: DefaultMatrixFormSurf_value_def)

lemma DefaultVectorFormSurf_new_homogeneous:
  "DefaultVectorFormSurf_value (snd (DefaultVectorFormSurf_new i area c f_coeff g h))
      (fst (DefaultVectorFormSurf_new i area c f_coeff g h)) n wt u_ext v e =
    map_option (\<lambda>result. c * result)
      (DefaultVectorFormSurf_value (snd (DefaultVectorFormSurf_new i area 1 f_coeff g h))
         (fst (DefaultVectorFormSurf_new i area 1 f_coeff g h)) n wt u_ext v e)"
  by (simp add: DefaultVectorFormSurf_new_def DefaultVectorFormSurf_value_def Let_def split_def
        option.map_comp comp_def)

lemma DefaultVectorFormSurf_new_areas_homogeneous:
  "DefaultVectorFormSurf_value (snd (DefaultVectorFormSurf_new_areas i areas c f_coeff g h))
      (fst (DefaultVectorFormSurf_new_areas i areas c f_coeff g h)) n wt u_ext v e =
    map_option (\<lambda>result. c * result)
      (DefaultVectorFormSurf_value (snd (DefaultVectorFormSurf_new_areas i areas 1 f_coeff g h))
         (fst (DefaultVectorFormSurf_new_areas i areas 1 f_coeff g h)) n wt u_ext v e)"
  by (simp add: DefaultVectorFormSurf_new_areas_def DefaultVectorFormSurf_value_def Let_def split_def
        option.map_comp comp_def)

lemma DefaultVectorFormSurf_value_no_points:
  "DefaultVectorFormSurf_value h this 0 wt u_ext v e = Some 0"
  by (simp add: DefaultVectorFormSurf_value_def)

lemma DefaultResidualSurf_new_homogeneous:
  "DefaultResidualSurf_value (snd (DefaultResidualSurf_new i area c f_coeff g h))
      (fst (DefaultResidualSurf_new i area c f_coeff g h)) n wt u_ext v e =
    map_option (\<lambda>result. c * result)
      (DefaultResidualSurf_value (snd (DefaultResidualSurf_new i area 1 f_coeff g h))
         (fst (DefaultResidualSurf_new i area 1 f_coeff g h)) n wt u_ext v e)"
  by (simp add: DefaultResidualSurf_new_def DefaultResidualSurf_value_def Let_def split_def
        option.map_comp comp_def)

lemma DefaultResidualSurf_new_areas_homogeneous:
  "DefaultResidualSurf_value (snd (DefaultResidualSurf_new_areas i areas c f_coeff g h))
      (fst (DefaultResidualSurf_new_areas i areas c f_coeff g h)) n wt u_ext v e =
    map_option (\<lambda>result. c * result)
      (DefaultResidualSurf_value (snd (DefaultResidualSurf_new_areas i areas 1 f_coeff g h))
         (fst (DefaultResidualSurf_new_areas i areas 1 f_coeff g h)) n wt u_ext v e)"
  by (simp add: DefaultResidualSurf_new_areas_def DefaultResidualSurf_value_def Let_def split_def
        option.map_comp comp_def)

lemma DefaultResidualSurf_value_no_points:
  "DefaultResidualSurf_value h this 0 wt u_ext v e = Some 0"
  by (simp add: DefaultResidualSurf_value_def)

text \<open>
  C10: for \<^verbatim>\<open>DefaultMatrixFormVol\<close>, \<^verbatim>\<open>DefaultVectorFormVol\<close>, \<^verbatim>\<open>DefaultResidualVol\<close>,
  \<^verbatim>\<open>DefaultMatrixFormSurf\<close>, \<^verbatim>\<open>DefaultVectorFormSurf\<close> and \<^verbatim>\<open>DefaultResidualSurf\<close>, built by
  either constructor, the numeric value of the term constructed with the constant
  coefficient \<open>c\<close> is \<open>c\<close> times the numeric value of the term constructed with the constant
  coefficient 1 and otherwise the same arguments, on every input; and with zero
  quadrature points the numeric value of any such term is 0.
\<close>

theorem const_coeff_homogeneous:
  "(DefaultMatrixFormVol_value (snd (DefaultMatrixFormVol_new i j area c f_coeff sy g h))
        (fst (DefaultMatrixFormVol_new i j area c f_coeff sy g h)) n wt u_ext u v e =
      map_option (\<lambda>result. c * result)
        (DefaultMatrixFormVol_value (snd (DefaultMatrixFormVol_new i j area 1 f_coeff sy g h))
           (fst (DefaultMatrixFormVol_new i j area 1 f_coeff sy g h)) n wt u_ext u v e))
   \<and> (DefaultMatrixFormVol_value (snd (DefaultMatrixFormVol_new_areas i j areas c f_coeff sy g h))
        (fst (DefaultMatrixFormVol_new_areas i j areas c f_coeff sy g h)) n wt u_ext u v e =
      map_option (\<lambda>result. c * result)
        (DefaultMatrixFormVol_value (snd (DefaultMatrixFormVol_new_areas i j areas 1 f_coeff sy g h))
           (fst (DefaultMatrixFormVol_new_areas i j areas 1 f_coeff sy g h)) n wt u_ext u v e))
   \<and> (DefaultVectorFormVol_value (snd (DefaultVectorFormVol_new i area c f_coeff g h))
        (fst (DefaultVectorFormVol_new i area c f_coeff g h)) n wt u_ext v e =
      map_option (\<lambda>result. c * result)
        (DefaultVectorFormVol_value (snd (DefaultVectorFormVol_new i area 1 f_coeff g h))
           (fst (DefaultVectorFormVol_new i area 1 f_coeff g h)) n wt u_ext v e))
   \<and> (DefaultVectorFormVol_value (snd (DefaultVectorFormVol_new_areas i areas c f_coeff g h))
        (fst (DefaultVectorFormVol_new_areas i areas c f_coeff g h)) n wt u_ext v e =
      map_option (\<lambda>result. c * result)
        (DefaultVectorFormVol_value (snd (DefaultVectorFormVol_new_areas i areas 1 f_coeff g h))
           (fst (DefaultVectorFormVol_new_areas i areas 1 f_coeff g h)) n wt u_ext v e))
   \<and> (DefaultResidualVol_value (snd (DefaultResidualVol_new i area c f_coeff g h))
        (fst (DefaultResidualVol_new i area c f_coeff g h)) n wt u_ext v e =
      map_option (\<lambda>result. c * result)
        (DefaultResidualVol_value (snd (DefaultResidualVol_new i area 1 f_coeff g h))
           (fst (DefaultResidualVol_new i area 1 f_coeff g h)) n wt u_ext v e))
   \<and> (DefaultResidualVol_value (snd (DefaultResidualVol_new_areas i areas c f_coeff g h))
        (fst (DefaultResidualVol_new_areas i areas c f_coeff g h)) n wt u_ext v e =
      map_option (\<lambda>result. c * result)
        (DefaultResidualVol_value (snd (DefaultResidualVol_new_areas i areas 1 f_coeff g h))
           (fst (DefaultResidualVol_new_areas i areas 1 f_coeff g h)) n wt u_ext v e))
   \<and> (DefaultMatrixFormSurf_value (snd (DefaultMatrixFormSurf_new i j area c f_coeff g h))
        (fst (DefaultMatrixFormSurf_new i j area c f_coeff g h)) n wt u_ext u v e =
      map_option (\<lambda>result. c * result)
        (DefaultMatrixFormSurf_value (snd (DefaultMatrixFormSurf_new i j area 1 f_coeff g h))
           (fst (DefaultMatrixFormSurf_new i j area 1 f_coeff g h)) n wt u_ext u v e))
   \<and> (DefaultMatrixFormSurf_value (snd (DefaultMatrixFormSurf_new_areas i j areas c f_coeff g h))
        (fst (DefaultMatrixFormSurf_new_areas i j areas c f_coeff g h)) n wt u_ext u v e =
      map_option (\<lambda>result. c * result)
        (DefaultMatrixFormSurf_value (snd (DefaultMatrixFormSurf_new_areas i j areas 1 f_coeff g h))
           (fst (DefaultMatrixFormSurf_new_areas i j areas 1 f_coeff g h)) n wt u_ext u v e))
   \<and> (DefaultVectorFormSurf_value (snd (DefaultVectorFormSurf_new i area c f_coeff g h))
        (fst (DefaultVectorFormSurf_new i area c f_coeff g h)) n wt u_ext v e =
      map_option (\<lambda>result. c * result)
        (DefaultVectorFormSurf_value (snd (DefaultVectorFormSurf_new i area 1 f_coeff g h))
           (fst (DefaultVectorFormSurf_new i area 1 f_coeff g h)) n wt u_ext v e))
   \<and> (DefaultVectorFormSurf_value (snd (DefaultVectorFormSurf_new_areas i areas c f_coeff g h))
        (fst (DefaultVectorFormSurf_new_areas i areas c f_coeff g h)) n wt u_ext v e =
      map_option (\<lambda>result. c * result)
        (DefaultVectorFormSurf_value (snd (DefaultVectorFormSurf_new_areas i areas 1 f_coeff g h))
           (fst (DefaultVectorFormSurf_new_areas i areas 1 f_coeff g h)) n wt u_ext v e))
   \<and> (DefaultResidualSurf_value (snd (DefaultResidualSurf_new i area c f_coeff g h))
        (fst (DefaultResidualSurf_new i area c f_coeff g h)) n wt u_ext v e =
      map_option (\<lambda>result. c * result)
        (DefaultResidualSurf_value (snd (DefaultResidualSurf_new i area 1 f_coeff g h))
           (fst (DefaultResidualSurf_new i area 1 f_coeff g h)) n wt u_ext v e))
   \<and> (DefaultResidualSurf_value (snd (DefaultResidualSurf_new_areas i areas c f_coeff g h))
        (fst (DefaultResidualSurf_new_areas i areas c f_coeff g h)) n wt u_ext v e =
      map_option (\<lambda>result. c * result)
        (DefaultResidualSurf_value (snd (DefaultResidualSurf_new_areas i areas 1 f_coeff g h))
           (fst (DefaultResidualSurf_new_areas i areas 1 f_coeff g h)) n wt u_ext v e))
   \<and> (DefaultMatrixFormVol_value h mv 0 wt u_ext u v e = Some 0)
   \<and> (DefaultVectorFormVol_value h vv 0 wt u_ext v e = Some 0)
   \<and> (DefaultResidualVol_value h rv 0 wt u_ext v e = Some 0)
   \<and> (DefaultMatrixFormSurf_value h ms 0 wt u_ext u v e = Some 0)
   \<and> (DefaultVectorFormSurf_value h vs 0 wt u_ext v e = Some 0)
   \<and> (DefaultResidualSurf_value h rs 0 wt u_ext v e = Some 0)"
  by (intro conjI DefaultMatrixFormVol_new_homogeneous
        DefaultMatrixFormVol_new_areas_homogeneous
        DefaultMatrixFormVol_value_no_points
        DefaultVectorFormVol_new_homogeneous
        DefaultVectorFormVol_new_areas_homogeneous
        DefaultVectorFormVol_value_no_points
        DefaultResidualVol_new_homogeneous
        DefaultResidualVol_new_areas_homogeneous
        DefaultResidualVol_value_no_points
        DefaultMatrixFormSurf_new_homogeneous
        DefaultMatrixFormSurf_new_areas_homogeneous
        DefaultMatrixFormSurf_value_no_points
        DefaultVectorFormSurf_new_homogeneous
        DefaultVectorFormSurf_new_areas_homogeneous
        DefaultVectorFormSurf_value_no_points
        DefaultResidualSurf_new_homogeneous
        DefaultResidualSurf_new_areas_homogeneous
        DefaultResidualSurf_value_no_points)


section \<open>The order estimate of the diffusion residual\<close>

lemma Ord_plus_order: "Ord_plus a b = Ord (max (get_order a) (get_order b))"
  by (cases a; cases b) simp

lemma Ord_times_order: "Ord_times a b = Ord (get_order a + get_order b)"
  by (cases a; cases b) simp

lemma accumulate_Ord_Some:
  "accumulate_Ord (\<lambda>i. Some (f i)) n =
     Some (Ord (Max (insert 0 ((\<lambda>i. get_order (f i)) ` {..<n}))))"
proof (induction n)
  case 0
  show ?case by (simp add: Ord_of_double_def)
next
  case (Suc n)
  have "Max (insert 0 ((\<lambda>i. get_order (f i)) ` {..<Suc n})) =
        max (get_order (f n)) (Max (insert 0 ((\<lambda>i. get_order (f i)) ` {..<n})))"
  proof -
    have "insert 0 ((\<lambda>i. get_order (f i)) ` {..<Suc n}) =
          insert (get_order (f n)) (insert 0 ((\<lambda>i. get_order (f i)) ` {..<n}))"
      by (auto simp: lessThan_Suc)
    then show ?thesis
      by (simp only: Max_insert [of "insert 0 ((\<lambda>i. get_order (f i)) ` {..<n})"]
            finite_insert finite_imageI finite_lessThan insert_not_empty not_False_eq_True)
  qed
  with Suc show ?case
    by (simp add: Ord_plus_order max.commute)
qed

text \<open>
  C7: when the spline pointer of the term is valid and points to \<open>kappa\<close>, the order that
  \<^verbatim>\<open>DefaultResidualDiffusion::ord\<close> returns is, in every geometry mode, the order of the
  planar summation \<open>weight * const_coeff * kappa(u_prev) * (grad u_prev . grad v)\<close> in the
  algebra of orders (a weight and the constant have degree 0, a product has the sum of
  the degrees, a sum the larger degree), and in the two axisymmetric modes that order
  plus exactly one. The geometry samples do not enter the result.
\<close>

theorem DefaultResidualDiffusion_ord_formula:
  assumes "spline_at h (DefaultResidualDiffusion.spline_coeff this) = Some kappa"
  shows "map_option get_order
           (DefaultResidualDiffusion_ord get_value_Ord h this n wt u_ext v e) =
     Some (planar_order n
             (\<lambda>i. get_order (get_value_Ord kappa
                                (val (u_ext (DefaultResidualDiffusion.idx_i this)) i))
                   + max (get_order (dx (u_ext (DefaultResidualDiffusion.idx_i this)) i)
                            + get_order (dx v i))
                         (get_order (dy (u_ext (DefaultResidualDiffusion.idx_i this)) i)
                            + get_order (dy v i)))
           + (if DefaultResidualDiffusion.gt this = HERMES_PLANAR then 0 else 1))"
  using assms
  by (simp add: DefaultResidualDiffusion_ord_def accumulate_Ord_Some planar_order_def
        Ord_times_order Ord_plus_order Ord_of_double_def)

theorem DefaultResidualDiffusion_ord_formula_witness:
  "spline_at [Some (SplineObject \<lparr>get_value = lam, get_derivative = dlam_du\<rparr>)]
     (DefaultResidualDiffusion.spline_coeff
        (fst (DefaultResidualDiffusion_new 0 ''a'' 1 (Ptr 0) HERMES_AXISYM_Y
               [Some (SplineObject \<lparr>get_value = lam, get_derivative = dlam_du\<rparr>)])))
     = Some \<lparr>get_value = lam, get_derivative = dlam_du\<rparr>
   \<and> map_option get_order
       (DefaultResidualDiffusion_ord (\<lambda>s x. Ord (4 * get_order x))
          [Some (SplineObject \<lparr>get_value = lam, get_derivative = dlam_du\<rparr>)]
          (fst (DefaultResidualDiffusion_new 0 ''a'' 1 (Ptr 0) HERMES_AXISYM_Y
                  [Some (SplineObject \<lparr>get_value = lam, get_derivative = dlam_du\<rparr>)]))
          2 (\<lambda>i. 1 / 2)
          (\<lambda>k. \<lparr>val = (\<lambda>i. Ord 2), dx = (\<lambda>i. Ord 1), dy = (\<lambda>i. Ord 1)\<rparr>)
          \<lparr>val = (\<lambda>i. Ord 2), dx = (\<lambda>i. Ord 1), dy = (\<lambda>i. Ord 1)\<rparr>
          \<lparr>geom_x = (\<lambda>i. Ord 1), geom_y = (\<lambda>i. Ord 1)\<rparr>) = Some 11"
proof -
  let ?h = "[Some (SplineObject \<lparr>get_value = lam, get_derivative = dlam_du\<rparr>)]"
  let ?t = "fst (DefaultResidualDiffusion_new 0 ''a'' 1 (Ptr 0) HERMES_AXISYM_Y ?h)"
  have t: "?t = \<lparr>DefaultResidualDiffusion.form_i = 0, form_areas = [''a''], idx_i = 0,
                 const_coeff = 1, spline_coeff = Ptr 0, gt = HERMES_AXISYM_Y\<rparr>"
    by (simp add: DefaultResidualDiffusion_new_def HERMES_DEFAULT_SPLINE_def)
  have valid: "spline_at ?h (DefaultResidualDiffusion.spline_coeff ?t)
                 = Some \<lparr>get_value = lam, get_derivative = dlam_du\<rparr>"
    by (simp add: t spline_at_def)
  have "map_option get_order
       (DefaultResidualDiffusion_ord (\<lambda>s x. Ord (4 * get_order x)) ?h ?t
          2 (\<lambda>i. 1 / 2)
          (\<lambda>k. \<lparr>val = (\<lambda>i. Ord 2), dx = (\<lambda>i. Ord 1), dy = (\<lambda>i. Ord 1)\<rparr>)
          \<lparr>val = (\<lambda>i. Ord 2), dx = (\<lambda>i. Ord 1), dy = (\<lambda>i. Ord 1)\<rparr>
          \<lparr>geom_x = (\<lambda>i. Ord 1), geom_y = (\<lambda>i. Ord 1)\<rparr>) = Some 11"
    unfolding DefaultResidualDiffusion_ord_formula [OF valid]
    by (simp add: t planar_order_def lessThan_Suc eval_nat_numeral)
  with valid show ?thesis by blast
qed


section \<open>Construction of the advection terms\<close>

text \<open>
  C5: for every choice of the other construction arguments, each of the four constructors
  of \<^verbatim>\<open>DefaultJacobianAdvection\<close> and \<^verbatim>\<open>DefaultResidualAdvection\<close> called with a geometry mode
  other than planar ends in the configuration error
  "Axisymmetric advection forms not implemented yet." and builds no term; called with
  the planar mode it returns a term whose mode is planar.
\<close>

theorem advection_construction_planar_only:
  "(g \<noteq> HERMES_PLANAR \<longrightarrow>
      DefaultJacobianAdvection_new i j area c1 c2 c_spline1 c_spline2 g h =
        Inl (Error ''Axisymmetric advection forms not implemented yet.'')
      \<and> DefaultJacobianAdvection_new_areas raw_j i j areas c1 c2 c_spline1 c_spline2 g h =
        Inl (Error ''Axisymmetric advection forms not implemented yet.'')
      \<and> DefaultResidualAdvection_new i area c1 c2 c_spline1 c_spline2 g h =
        Inl (Error ''Axisymmetric advection forms not implemented yet.'')
      \<and> DefaultResidualAdvection_new_areas raw_i i areas c1 c2 c_spline1 c_spline2 g h =
        Inl (Error ''Axisymmetric advection forms not implemented yet.''))
   \<and> (\<exists>this h'. DefaultJacobianAdvection_new i j area c1 c2 c_spline1 c_spline2
                    HERMES_PLANAR h = Inr (this, h')
                  \<and> DefaultJacobianAdvection.gt this = HERMES_PLANAR)
   \<and> (\<exists>this h'. DefaultJacobianAdvection_new_areas raw_j i j areas c1 c2 c_spline1 c_spline2
                    HERMES_PLANAR h = Inr (this, h')
                  \<and> DefaultJacobianAdvection.gt this = HERMES_PLANAR)
   \<and> (\<exists>this h'. DefaultResidualAdvection_new i area c1 c2 c_spline1 c_spline2
                    HERMES_PLANAR h = Inr (this, h')
                  \<and> DefaultResidualAdvection.gt this = HERMES_PLANAR)
   \<and> (\<exists>this h'. DefaultResidualAdvection_new_areas raw_i i areas c1 c2 c_spline1 c_spline2
                    HERMES_PLANAR h = Inr (this, h')
                  \<and> DefaultResidualAdvection.gt this = HERMES_PLANAR)"
  by (simp add: DefaultJacobianAdvection_new_def DefaultJacobianAdvection_new_areas_def
        DefaultResidualAdvection_new_def DefaultResidualAdvection_new_areas_def
        Let_def split_def)

theorem advection_construction_planar_only_witness:
  "HERMES_AXISYM_X \<noteq> HERMES_PLANAR
   \<and> DefaultJacobianAdvection_new 0 0 ''a'' 1 1 Null Null HERMES_AXISYM_X [] =
        Inl (Error ''Axisymmetric advection forms not implemented yet.'')
   \<and> DefaultResidualAdvection_new 0 ''a'' 1 1 Null Null HERMES_AXISYM_X [] =
        Inl (Error ''Axisymmetric advection forms not implemented yet.'')"
  using advection_construction_planar_only [of HERMES_AXISYM_X 0 0 "''a''" 1 1 Null Null "[]"]
  by simp


section \<open>Ownership of the coefficient models\<close>

lemma live_delete: "live h p \<Longrightarrow> \<exists>h'. delete p h = Some h' \<and> \<not> live h' p"
  by (cases p) (auto simp: live_def)

text \<open>
  A term built with the sentinel allocates a constant model, and its destructor releases
  that model.
\<close>

lemma DefaultMatrixFormVol_releases_default:
  "DefaultMatrixFormVol_destroy
     (fst (DefaultMatrixFormVol_new i j area c HERMES_DEFAULT_FUNCTION sy g h))
     (snd (DefaultMatrixFormVol_new i j area c HERMES_DEFAULT_FUNCTION sy g h)) =
   Some (h @ [None])"
  by (simp add: DefaultMatrixFormVol_new_def DefaultMatrixFormVol_destroy_def new_def
        HERMES_DEFAULT_FUNCTION_def)

lemma DefaultJacobianDiffusion_releases_default:
  "DefaultJacobianDiffusion_destroy
     (fst (DefaultJacobianDiffusion_new i j area c HERMES_DEFAULT_SPLINE sy g h))
     (snd (DefaultJacobianDiffusion_new i j area c HERMES_DEFAULT_SPLINE sy g h)) =
   Some (h @ [None])"
  by (simp add: DefaultJacobianDiffusion_new_def DefaultJacobianDiffusion_destroy_def new_def
        HERMES_DEFAULT_SPLINE_def)

text \<open>
  A term built with a model of the caller stores the caller's pointer, which is not the
  sentinel, so the guard of the destructor holds and the destructor releases the
  caller's model.
\<close>

lemma DefaultMatrixFormVol_releases_supplied:
  assumes "f_coeff \<noteq> HERMES_DEFAULT_FUNCTION" and "live h f_coeff"
  shows "\<exists>h'. DefaultMatrixFormVol_destroy
                (fst (DefaultMatrixFormVol_new i j area c f_coeff sy g h))
                (snd (DefaultMatrixFormVol_new i j area c f_coeff sy g h)) = Some h'
              \<and> \<not> live h' f_coeff"
  using assms live_delete [of h f_coeff]
  by (simp add: DefaultMatrixFormVol_new_def DefaultMatrixFormVol_destroy_def)

lemma DefaultJacobianDiffusion_releases_supplied:
  assumes "c_spline \<noteq> HERMES_DEFAULT_SPLINE" and "live h c_spline"
  shows "\<exists>h'. DefaultJacobianDiffusion_destroy
                (fst (DefaultJacobianDiffusion_new i j area c c_spline sy g h))
                (snd (DefaultJacobianDiffusion_new i j area c c_spline sy g h)) = Some h'
              \<and> \<not> live h' c_spline"
  using assms live_delete [of h c_spline]
  by (simp add: DefaultJacobianDiffusion_new_def DefaultJacobianDiffusion_destroy_def)

text \<open>
  \<^verbatim>\<open>DefaultWeakFormLaplace\<close> gives one spline of the caller to two terms. Once the
  destructor of the Jacobian term has run, the destructor of the residual term releases
  the same spline a second time.
\<close>

lemma DefaultWeakFormLaplace_double_release:
  assumes "spline \<noteq> HERMES_DEFAULT_SPLINE" and "live h spline"
    and "DefaultWeakFormLaplace_new area c spline g h = ((jacobian, residual), h1)"
    and "DefaultJacobianDiffusion_destroy jacobian h1 = Some h2"
  shows "DefaultResidualDiffusion_destroy residual h2 = None"
  using assms
  by (cases spline)
     (auto simp: DefaultWeakFormLaplace_new_def DefaultJacobianDiffusion_new_def
        DefaultResidualDiffusion_new_def DefaultJacobianDiffusion_destroy_def
        DefaultResidualDiffusion_destroy_def live_def HERMES_DEFAULT_SPLINE_def
        split: if_splits)

text \<open>
  C6: the claim is that the destructor of a term releases the coefficient model if and
  only if the term was constructed with the sentinel, and never releases a model that the
  caller supplied. A \<^verbatim>\<open>DefaultMatrixFormVol\<close> and a \<^verbatim>\<open>DefaultJacobianDiffusion\<close> are each
  constructed with a pointer of the caller (not the sentinel) to the one live object of
  the store; after the destructor that object is released.
\<close>

theorem destructor_releases_supplied_model:
  "Ptr 0 \<noteq> HERMES_DEFAULT_FUNCTION
   \<and> live [Some (FunctionObject (DefaultFunction_const 5))] (Ptr 0)
   \<and> DefaultMatrixFormVol_destroy
       (fst (DefaultMatrixFormVol_new 0 0 ''a'' 1 (Ptr 0) HERMES_NONSYM HERMES_PLANAR
               [Some (FunctionObject (DefaultFunction_const 5))]))
       (snd (DefaultMatrixFormVol_new 0 0 ''a'' 1 (Ptr 0) HERMES_NONSYM HERMES_PLANAR
               [Some (FunctionObject (DefaultFunction_const 5))])) = Some [None]
   \<and> \<not> live [None] (Ptr 0)
   \<and> Ptr 0 \<noteq> HERMES_DEFAULT_SPLINE
   \<and> live [Some (SplineObject (CubicSpline_const 5))] (Ptr 0)
   \<and> DefaultJacobianDiffusion_destroy
       (fst (DefaultJacobianDiffusion_new 0 0 ''a'' 1 (Ptr 0) HERMES_SYM HERMES_PLANAR
               [Some (SplineObject (CubicSpline_const 5))]))
       (snd (DefaultJacobianDiffusion_new 0 0 ''a'' 1 (Ptr 0) HERMES_SYM HERMES_PLANAR
               [Some (SplineObject (CubicSpline_const 5))])) = Some [None]"
  by (simp add: DefaultMatrixFormVol_new_def DefaultMatrixFormVol_destroy_def
        DefaultJacobianDiffusion_new_def DefaultJacobianDiffusion_destroy_def
        HERMES_DEFAULT_FUNCTION_def HERMES_DEFAULT_SPLINE_def live_def)


section \<open>The two constructors of a term\<close>

text \<open>
  For these eight classes the constructor for a list of areas stores what the constructor
  for one area stores, and the evaluators agree.
\<close>

lemma DefaultMatrixFormVol_new_areas_value:
  "DefaultMatrixFormVol_value (snd (DefaultMatrixFormVol_new_areas i j areas c f_coeff sy g h))
       (fst (DefaultMatrixFormVol_new_areas i j areas c f_coeff sy g h)) n wt u_ext u v e =
   DefaultMatrixFormVol_value (snd (DefaultMatrixFormVol_new i j area c f_coeff sy g h))
       (fst (DefaultMatrixFormVol_new i j area c f_coeff sy g h)) n wt u_ext u v e"
  by (simp add: DefaultMatrixFormVol_new_def DefaultMatrixFormVol_new_areas_def DefaultMatrixFormVol_value_def Let_def split_def)

lemma DefaultJacobianDiffusion_new_areas_value:
  "DefaultJacobianDiffusion_value (snd (DefaultJacobianDiffusion_new_areas i j areas c c_spline sy g h))
       (fst (DefaultJacobianDiffusion_new_areas i j areas c c_spline sy g h)) n wt u_ext u v e =
   DefaultJacobianDiffusion_value (snd (DefaultJacobianDiffusion_new i j area c c_spline sy g h))
       (fst (DefaultJacobianDiffusion_new i j area c c_spline sy g h)) n wt u_ext u v e"
  by (simp add: DefaultJacobianDiffusion_new_def DefaultJacobianDiffusion_new_areas_def DefaultJacobianDiffusion_value_def Let_def split_def)

lemma DefaultVectorFormVol_new_areas_value:
  "DefaultVectorFormVol_value (snd (DefaultVectorFormVol_new_areas i areas c f_coeff g h))
       (fst (DefaultVectorFormVol_new_areas i areas c f_coeff g h)) n wt u_ext v e =
   DefaultVectorFormVol_value (snd (DefaultVectorFormVol_new i area c f_coeff g h))
       (fst (DefaultVectorFormVol_new i area c f_coeff g h)) n wt u_ext v e"
  by (simp add: DefaultVectorFormVol_new_def DefaultVectorFormVol_new_areas_def DefaultVectorFormVol_value_def Let_def split_def)

lemma DefaultResidualVol_new_areas_value:
  "DefaultResidualVol_value (snd (DefaultResidualVol_new_areas i areas c f_coeff g h))
       (fst (DefaultResidualVol_new_areas i areas c f_coeff g h)) n wt u_ext v e =
   DefaultResidualVol_value (snd (DefaultResidualVol_new i area c f_coeff g h))
       (fst (DefaultResidualVol_new i area c f_coeff g h)) n wt u_ext v e"
  by (simp add: DefaultResidualVol_new_def DefaultResidualVol_new_areas_def DefaultResidualVol_value_def Let_def split_def)

lemma DefaultResidualDiffusion_new_areas_value:
  "DefaultResidualDiffusion_value (snd (DefaultResidualDiffusion_new_areas i areas c c_spline g h))
       (fst (DefaultResidualDiffusion_new_areas i areas c c_spline g h)) n wt u_ext v e =
   DefaultResidualDiffusion_value (snd (DefaultResidualDiffusion_new i area c c_spline g h))
       (fst (DefaultResidualDiffusion_new i area c c_spline g h)) n wt u_ext v e"
  by (simp add: DefaultResidualDiffusion_new_def DefaultResidualDiffusion_new_areas_def DefaultResidualDiffusion_value_def Let_def split_def)

lemma DefaultMatrixFormSurf_new_areas_value:
  "DefaultMatrixFormSurf_value (snd (DefaultMatrixFormSurf_new_areas i j areas c f_coeff g h))
       (fst (DefaultMatrixFormSurf_new_areas i j areas c f_coeff g h)) n wt u_ext u v e =
   DefaultMatrixFormSurf_value (snd (DefaultMatrixFormSurf_new i j area c f_coeff g h))
       (fst (DefaultMatrixFormSurf_new i j area c f_coeff g h)) n wt u_ext u v e"
  by (simp add: DefaultMatrixFormSurf_new_def DefaultMatrixFormSurf_new_areas_def DefaultMatrixFormSurf_value_def Let_def split_def)

lemma DefaultVectorFormSurf_new_areas_value:
  "DefaultVectorFormSurf_value (snd (DefaultVectorFormSurf_new_areas i areas c f_coeff g h))
       (fst (DefaultVectorFormSurf_new_areas i areas c f_coeff g h)) n wt u_ext v e =
   DefaultVectorFormSurf_value (snd (DefaultVectorFormSurf_new i area c f_coeff g h))
       (fst (DefaultVectorFormSurf_new i area c f_coeff g h)) n wt u_ext v e"
  by (simp add: DefaultVectorFormSurf_new_def DefaultVectorFormSurf_new_areas_def DefaultVectorFormSurf_value_def Let_def split_def)

lemma DefaultResidualSurf_new_areas_value:
  "DefaultResidualSurf_value (snd (DefaultResidualSurf_new_areas i areas c f_coeff g h))
       (fst (DefaultResidualSurf_new_areas i areas c f_coeff g h)) n wt u_ext v e =
   DefaultResidualSurf_value (snd (DefaultResidualSurf_new i area c f_coeff g h))
       (fst (DefaultResidualSurf_new i area c f_coeff g h)) n wt u_ext v e"
  by (simp add: DefaultResidualSurf_new_def DefaultResidualSurf_new_areas_def DefaultResidualSurf_value_def Let_def split_def)

text \<open>
  The constructors for a list of areas of the two advection terms and of
  \<^verbatim>\<open>DefaultJacobianFormSurf\<close> keep the prior content of the spline members when the caller
  supplies splines.
\<close>

lemma DefaultJacobianAdvection_new_areas_keeps_raw:
  assumes "c_spline1 \<noteq> HERMES_DEFAULT_SPLINE" and "c_spline2 \<noteq> HERMES_DEFAULT_SPLINE"
  shows "DefaultJacobianAdvection_new_areas raw i j areas c1 c2 c_spline1 c_spline2
           HERMES_PLANAR h =
         Inr (\<lparr>DefaultJacobianAdvection.form_i = i, form_j = j, form_areas = areas,
                form_sym = HERMES_NONSYM, idx_j = j, const_coeff1 = c1, const_coeff2 = c2,
                spline_coeff1 = DefaultJacobianAdvection.spline_coeff1 raw,
                spline_coeff2 = DefaultJacobianAdvection.spline_coeff2 raw,
                gt = HERMES_PLANAR\<rparr>, h)"
  using assms by (simp add: DefaultJacobianAdvection_new_areas_def)

lemma DefaultResidualAdvection_new_areas_keeps_raw:
  assumes "c_spline1 \<noteq> HERMES_DEFAULT_SPLINE" and "c_spline2 \<noteq> HERMES_DEFAULT_SPLINE"
  shows "DefaultResidualAdvection_new_areas raw i areas c1 c2 c_spline1 c_spline2
           HERMES_PLANAR h =
         Inr (\<lparr>DefaultResidualAdvection.form_i = i, form_areas = areas,
                idx_i = i, const_coeff1 = c1, const_coeff2 = c2,
                spline_coeff1 = DefaultResidualAdvection.spline_coeff1 raw,
                spline_coeff2 = DefaultResidualAdvection.spline_coeff2 raw,
                gt = HERMES_PLANAR\<rparr>, h)"
  using assms by (simp add: DefaultResidualAdvection_new_areas_def)

lemma DefaultJacobianFormSurf_new_areas_keeps_raw:
  assumes "c_spline \<noteq> HERMES_DEFAULT_SPLINE"
  shows "DefaultJacobianFormSurf_new_areas raw i j areas c c_spline g h =
         (\<lparr>DefaultJacobianFormSurf.form_i = i, form_j = j, form_areas = areas,
           idx_j = DefaultJacobianFormSurf.idx_j raw, const_coeff = c,
           spline_coeff = DefaultJacobianFormSurf.spline_coeff raw, gt = g\<rparr>, h)"
  using assms by (simp add: DefaultJacobianFormSurf_new_areas_def)

text \<open>
  C8: the claim is that the constructor for one area and the constructor for a list of
  areas, called with the same splines, constants, indices and geometry mode, give terms
  with the same numeric value on every input. The store holds the constant spline 2 at
  address 0 and the constant spline 5 at address 1; both constructors of
  \<^verbatim>\<open>DefaultJacobianAdvection\<close> are called with the spline at address 0 for both
  coefficients, and the storage of the second term held pointers to address 1 before.
  On one quadrature point the first term evaluates to 4 and the second to 10.
\<close>

theorem DefaultJacobianAdvection_constructors_differ:
  "(case DefaultJacobianAdvection_new 0 0 ''a'' 1 1 (Ptr 0) (Ptr 0) HERMES_PLANAR
           [Some (SplineObject (CubicSpline_const 2)),
            Some (SplineObject (CubicSpline_const 5))] of
      Inl err \<Rightarrow> None
    | Inr (this, h) \<Rightarrow>
        DefaultJacobianAdvection_value h this 1 (\<lambda>i. 1)
          (\<lambda>k. \<lparr>val = (\<lambda>i. 0), dx = (\<lambda>i. 1), dy = (\<lambda>i. 1)\<rparr>)
          \<lparr>val = (\<lambda>i. 1), dx = (\<lambda>i. 1), dy = (\<lambda>i. 1)\<rparr>
          \<lparr>val = (\<lambda>i. 1), dx = (\<lambda>i. 1), dy = (\<lambda>i. 1)\<rparr>
          \<lparr>geom_x = (\<lambda>i. 0), geom_y = (\<lambda>i. 0)\<rparr>) = Some 4
   \<and> (case DefaultJacobianAdvection_new_areas
            \<lparr>DefaultJacobianAdvection.form_i = 0, form_j = 0, form_areas = [],
               form_sym = HERMES_NONSYM, idx_j = 0, const_coeff1 = 0, const_coeff2 = 0,
               spline_coeff1 = Ptr 1, spline_coeff2 = Ptr 1, gt = HERMES_PLANAR\<rparr>
            0 0 [''a''] 1 1 (Ptr 0) (Ptr 0) HERMES_PLANAR
           [Some (SplineObject (CubicSpline_const 2)),
            Some (SplineObject (CubicSpline_const 5))] of
      Inl err \<Rightarrow> None
    | Inr (this, h) \<Rightarrow>
        DefaultJacobianAdvection_value h this 1 (\<lambda>i. 1)
          (\<lambda>k. \<lparr>val = (\<lambda>i. 0), dx = (\<lambda>i. 1), dy = (\<lambda>i. 1)\<rparr>)
          \<lparr>val = (\<lambda>i. 1), dx = (\<lambda>i. 1), dy = (\<lambda>i. 1)\<rparr>
          \<lparr>val = (\<lambda>i. 1), dx = (\<lambda>i. 1), dy = (\<lambda>i. 1)\<rparr>
          \<lparr>geom_x = (\<lambda>i. 0), geom_y = (\<lambda>i. 0)\<rparr>) = Some 10"
  by (simp add: DefaultJacobianAdvection_new_def DefaultJacobianAdvection_new_areas_def
        DefaultJacobianAdvection_value_def HERMES_DEFAULT_SPLINE_def spline_at_def
        CubicSpline_const_def)


section \<open>The Newton driver\<close>

text \<open>One round of the loop, by the way it ends.\<close>

lemma Newton_loop_break:
  "residual_norm assemble cv < tol \<or> it > max_iter \<Longrightarrow>
   Newton_loop assemble solve tol max_iter it success cv = Inr (success, cv)"
  by (subst Newton_loop.simps) (simp add: residual_norm_def Let_def)

lemma Newton_loop_solver_failed:
  "\<not> residual_norm assemble cv < tol \<Longrightarrow> it \<le> max_iter \<Longrightarrow>
   solve cv (change_sign (assemble cv)) = None \<Longrightarrow>
   Newton_loop assemble solve tol max_iter it success cv = Inl (Error ''Matrix solver failed.\<newline>'')"
  by (subst Newton_loop.simps) (simp add: residual_norm_def Let_def)

lemma Newton_loop_budget:
  "\<not> residual_norm assemble cv < tol \<Longrightarrow> it = max_iter \<Longrightarrow>
   solve cv (change_sign (assemble cv)) = Some solution \<Longrightarrow>
   Newton_loop assemble solve tol max_iter it success cv =
     Inl (Error ''Newton method did not converge.'')"
  by (subst Newton_loop.simps) (simp add: residual_norm_def Let_def)

lemma Newton_loop_step:
  "\<not> residual_norm assemble cv < tol \<Longrightarrow> it < max_iter \<Longrightarrow>
   solve cv (change_sign (assemble cv)) = Some solution \<Longrightarrow>
   Newton_loop assemble solve tol max_iter it success cv =
     Newton_loop assemble solve tol max_iter (it + 1) True
       (map (\<lambda>i. cv ! i + solution i) [0..<length cv])"
  by (subst Newton_loop.simps) (simp add: residual_norm_def Let_def)

lemma Newton_loop_converged:
  "\<forall>j<k. \<exists>c. Newton_iterate assemble solve j cv = Some c \<and> \<not> residual_norm assemble c < tol \<Longrightarrow>
   Newton_iterate assemble solve k cv = Some c \<Longrightarrow>
   residual_norm assemble c < tol \<Longrightarrow>
   it + int k \<le> max_iter \<Longrightarrow>
   Newton_loop assemble solve tol max_iter it success cv = Inr (success \<or> 0 < k, c)"
proof (induction k arbitrary: it success cv)
  case 0
  then show ?case by (simp add: Newton_loop_break)
next
  case (Suc k)
  from Suc.prems(1) have first: "\<not> residual_norm assemble cv < tol"
    by (auto dest: spec [of _ 0])
  from Suc.prems(2) obtain solution where
    sol: "solve cv (change_sign (assemble cv)) = Some solution"
    by (auto split: option.splits)
  let ?cv = "map (\<lambda>i. cv ! i + solution i) [0..<length cv]"
  from Suc.prems(1) sol
  have rest: "\<forall>j<k. \<exists>c. Newton_iterate assemble solve j ?cv = Some c
                \<and> \<not> residual_norm assemble c < tol"
    by (auto dest: spec [of _ "Suc j" for j])
  from Suc.prems(2) sol have last: "Newton_iterate assemble solve k ?cv = Some c"
    by simp
  from Suc.prems(4) have "it < max_iter" and "(it + 1) + int k \<le> max_iter" by simp_all
  with Suc.IH [OF rest last Suc.prems(3), of "it + 1" True] first sol
  show ?case by (simp add: Newton_loop_step)
qed


lemma Newton_loop_aborts_solver:
  "\<forall>j\<le>k. \<exists>c. Newton_iterate assemble solve j cv = Some c \<and> \<not> residual_norm assemble c < tol \<Longrightarrow>
   Newton_iterate assemble solve (Suc k) cv = None \<Longrightarrow>
   it + int k \<le> max_iter \<Longrightarrow>
   Newton_loop assemble solve tol max_iter it success cv = Inl (Error ''Matrix solver failed.\<newline>'')"
proof (induction k arbitrary: it success cv)
  case 0
  from "0.prems"(1) have "\<not> residual_norm assemble cv < tol" by simp
  moreover from "0.prems"(2) have "solve cv (change_sign (assemble cv)) = None"
    by (simp split: option.splits)
  ultimately show ?case using "0.prems"(3) by (simp add: Newton_loop_solver_failed)
next
  case (Suc k)
  from Suc.prems(1) have first: "\<not> residual_norm assemble cv < tol"
    by (auto dest: spec [of _ 0])
  from Suc.prems(1) have "\<exists>c. Newton_iterate assemble solve (Suc 0) cv = Some c"
    by (auto dest: spec [of _ "Suc 0"])
  then obtain solution where sol: "solve cv (change_sign (assemble cv)) = Some solution"
    by (auto split: option.splits)
  let ?cv = "map (\<lambda>i. cv ! i + solution i) [0..<length cv]"
  from Suc.prems(1) sol
  have rest: "\<forall>j\<le>k. \<exists>c. Newton_iterate assemble solve j ?cv = Some c
                \<and> \<not> residual_norm assemble c < tol"
    by (auto dest: spec [of _ "Suc j" for j])
  from Suc.prems(2) sol have last: "Newton_iterate assemble solve (Suc k) ?cv = None"
    by simp
  from Suc.prems(3) have "it < max_iter" and "(it + 1) + int k \<le> max_iter" by simp_all
  with Suc.IH [OF rest last, of "it + 1" True] first sol
  show ?case by (simp add: Newton_loop_step)
qed

lemma Newton_loop_aborts_budget:
  "\<forall>j\<le>k. \<exists>c. Newton_iterate assemble solve j cv = Some c \<and> \<not> residual_norm assemble c < tol \<Longrightarrow>
   Newton_iterate assemble solve (Suc k) cv \<noteq> None \<Longrightarrow>
   it + int k = max_iter \<Longrightarrow>
   Newton_loop assemble solve tol max_iter it success cv =
     Inl (Error ''Newton method did not converge.'')"
proof (induction k arbitrary: it success cv)
  case 0
  from "0.prems"(1) have "\<not> residual_norm assemble cv < tol" by simp
  moreover from "0.prems"(2) obtain solution where
    "solve cv (change_sign (assemble cv)) = Some solution"
    by (auto split: option.splits)
  ultimately show ?case using "0.prems"(3) by (simp add: Newton_loop_budget)
next
  case (Suc k)
  from Suc.prems(1) have first: "\<not> residual_norm assemble cv < tol"
    by (auto dest: spec [of _ 0])
  from Suc.prems(1) have "\<exists>c. Newton_iterate assemble solve (Suc 0) cv = Some c"
    by (auto dest: spec [of _ "Suc 0"])
  then obtain solution where sol: "solve cv (change_sign (assemble cv)) = Some solution"
    by (auto split: option.splits)
  let ?cv = "map (\<lambda>i. cv ! i + solution i) [0..<length cv]"
  from Suc.prems(1) sol
  have rest: "\<forall>j\<le>k. \<exists>c. Newton_iterate assemble solve j ?cv = Some c
                \<and> \<not> residual_norm assemble c < tol"
    by (auto dest: spec [of _ "Suc j" for j])
  from Suc.prems(2) sol have last: "Newton_iterate assemble solve (Suc k) ?cv \<noteq> None"
    by simp
  from Suc.prems(3) have "it < max_iter" and "(it + 1) + int k = max_iter" by simp_all
  with Suc.IH [OF rest last, of "it + 1" True] first sol
  show ?case by (simp add: Newton_loop_step)
qed

text \<open>
  The loop ends in no other error than the two, and it returns a coefficient vector only
  when the test passes at that vector.
\<close>

lemma Newton_loop_errors:
  "Newton_loop assemble solve tol max_iter it success cv = Inl e \<Longrightarrow>
   e = Error ''Matrix solver failed.\<newline>'' \<or> e = Error ''Newton method did not converge.''"
proof (induction assemble solve tol max_iter it success cv rule: Newton_loop.induct)
  case (1 assemble solve tol max_iter it success coeff_vec)
  show ?case
  proof (cases "residual_norm assemble coeff_vec < tol \<or> it > max_iter")
    case True
    with "1.prems" show ?thesis by (simp add: Newton_loop_break)
  next
    case False
    show ?thesis
    proof (cases "solve coeff_vec (change_sign (assemble coeff_vec))")
      case None
      with False "1.prems" show ?thesis by (simp add: Newton_loop_solver_failed)
    next
      case (Some solution)
      show ?thesis
      proof (cases "it < max_iter")
        case True
        with False Some "1.prems"
        have "Newton_loop assemble solve tol max_iter (it + 1) True
                (map (\<lambda>i. coeff_vec ! i + solution i) [0..<length coeff_vec]) = Inl e"
          by (simp add: Newton_loop_step)
        with "1.IH" [OF refl refl refl _ Some refl] False True show ?thesis
          by (simp add: residual_norm_def)
      next
        case False
        with \<open>\<not> (residual_norm assemble coeff_vec < tol \<or> it > max_iter)\<close> Some "1.prems"
        show ?thesis by (simp add: Newton_loop_budget)
      qed
    qed
  qed
qed

lemma Newton_loop_returns_converged:
  "Newton_loop assemble solve tol max_iter it success cv = Inr (success', c) \<Longrightarrow>
   it \<le> max_iter \<Longrightarrow> residual_norm assemble c < tol"
proof (induction assemble solve tol max_iter it success cv rule: Newton_loop.induct)
  case (1 assemble solve tol max_iter it success coeff_vec)
  show ?case
  proof (cases "residual_norm assemble coeff_vec < tol")
    case True
    with "1.prems" show ?thesis by (simp add: Newton_loop_break)
  next
    case False
    show ?thesis
    proof (cases "solve coeff_vec (change_sign (assemble coeff_vec))")
      case None
      with False "1.prems" show ?thesis by (simp add: Newton_loop_solver_failed)
    next
      case (Some solution)
      show ?thesis
      proof (cases "it < max_iter")
        case True
        with False Some "1.prems"
        have "Newton_loop assemble solve tol max_iter (it + 1) True
                (map (\<lambda>i. coeff_vec ! i + solution i) [0..<length coeff_vec])
              = Inr (success', c)"
          by (simp add: Newton_loop_step)
        with "1.IH" [OF refl refl refl _ Some refl] False True show ?thesis
          by (simp add: residual_norm_def)
      next
        case False
        with \<open>\<not> residual_norm assemble coeff_vec < tol\<close> Some "1.prems"
        show ?thesis by (simp add: Newton_loop_budget)
      qed
    qed
  qed
qed

lemma main_Inl:
  "main assemble solve cv = Inl e \<Longrightarrow>
   Newton_loop assemble solve NEWTON_TOL NEWTON_MAX_ITER 1 False cv = Inl e"
  unfolding main_def Newton_run_def
  by (cases "Newton_loop assemble solve NEWTON_TOL NEWTON_MAX_ITER 1 False cv")
     (simp_all split: if_splits prod.splits)

lemma main_Inr:
  "main assemble solve cv = Inr (code, c) \<Longrightarrow>
   \<exists>success. Newton_loop assemble solve NEWTON_TOL NEWTON_MAX_ITER 1 False cv
     = Inr (success, c)"
  unfolding main_def Newton_run_def
  by (cases "Newton_loop assemble solve NEWTON_TOL NEWTON_MAX_ITER 1 False cv")
     (simp_all split: if_splits prod.splits)

lemma main_field_converged:
  assumes "main assemble solve cv = Inr (code, c)"
  shows "residual_norm assemble c < NEWTON_TOL"
proof -
  from main_Inr [OF assms] obtain success where
    "Newton_loop assemble solve NEWTON_TOL NEWTON_MAX_ITER 1 False cv = Inr (success, c)" ..
  then show ?thesis
    by (rule Newton_loop_returns_converged) (simp add: NEWTON_MAX_ITER_def)
qed

text \<open>
  The test that passes at the initial coefficient vector ends the program with
  \<^verbatim>\<open>ERR_FAILURE\<close>: no linear solve has set \<^verbatim>\<open>success\<close>.
\<close>

lemma main_converged_first_test:
  assumes "residual_norm assemble cv < NEWTON_TOL"
  shows "main assemble solve cv = Inr (ERR_FAILURE, cv)"
  using assms by (simp add: main_def Newton_run_def Newton_loop_break)

text \<open>
  The test that passes after at least one linear solve ends the program with
  \<^verbatim>\<open>ERR_SUCCESS\<close> and the coefficient vector of that test as the field.
\<close>

lemma main_converged_later:
  assumes "\<forall>j<Suc k. \<exists>c. Newton_iterate assemble solve j cv = Some c
             \<and> \<not> residual_norm assemble c < NEWTON_TOL"
    and "Newton_iterate assemble solve (Suc k) cv = Some c"
    and "residual_norm assemble c < NEWTON_TOL"
    and "k < 6"
  shows "main assemble solve cv = Inr (ERR_SUCCESS, c)"
proof -
  from assms(4) have "1 + int (Suc k) \<le> NEWTON_MAX_ITER" by (simp add: NEWTON_MAX_ITER_def)
  from Newton_loop_converged [OF assms(1) assms(2) assms(3) this, of False]
  show ?thesis by (simp add: main_def Newton_run_def)
qed

text \<open>
  When the first test that passes is the seventh, the run with the budget 7 ends with
  \<^verbatim>\<open>ERR_SUCCESS\<close> and the run with the budget 6 ends in "Newton method did not converge.".
\<close>

lemma Newton_run_budget_7_and_6:
  assumes "\<forall>j<6. \<exists>c. Newton_iterate assemble solve j cv = Some c
             \<and> \<not> residual_norm assemble c < tol"
    and "Newton_iterate assemble solve 6 cv = Some c"
    and "residual_norm assemble c < tol"
  shows "Newton_run tol 7 assemble solve cv = Inr (ERR_SUCCESS, c)"
    and "Newton_run tol 6 assemble solve cv = Inl (Error ''Newton method did not converge.'')"
proof -
  have "Newton_loop assemble solve tol 7 1 False cv = Inr (False \<or> 0 < (6::nat), c)"
    using assms by (intro Newton_loop_converged) simp_all
  then show "Newton_run tol 7 assemble solve cv = Inr (ERR_SUCCESS, c)"
    by (simp add: Newton_run_def)
  have five: "Suc 5 = 6" by simp
  from assms(1) have "\<forall>j\<le>5. \<exists>c. Newton_iterate assemble solve j cv = Some c
             \<and> \<not> residual_norm assemble c < tol"
    by auto
  moreover from assms(2) have "Newton_iterate assemble solve (Suc 5) cv \<noteq> None"
    by (simp only: five) simp
  moreover have "1 + int 5 = 6" by simp
  ultimately have "Newton_loop assemble solve tol 6 1 False cv =
      Inl (Error ''Newton method did not converge.'')"
    by (intro Newton_loop_aborts_budget [of 5])
  then show "Newton_run tol 6 assemble solve cv =
      Inl (Error ''Newton method did not converge.'')"
    by (simp add: Newton_run_def)
qed

text \<open>
  C3: the claim is that whenever the residual norm is below the tolerance at the
  convergence test, also at the very first test, the program ends with a converged field
  and reports success. With an assembler whose residual vector is \<open>[0]\<close> the first test
  passes; the program returns the initial coefficient vector as the field with the exit
  code \<^verbatim>\<open>ERR_FAILURE\<close>, whatever the linear solver is.
\<close>

theorem main_first_test_reports_failure:
  "main (\<lambda>coeff_vec. [0]) solve [3] = Inr (ERR_FAILURE, [3])"
proof -
  have "residual_norm (\<lambda>coeff_vec. [0]) [3] < NEWTON_TOL"
    by (simp add: residual_norm_def get_l2_norm_def change_sign_def NEWTON_TOL_def)
  then show ?thesis
    by (rule main_converged_first_test)
qed

text \<open>
  C4: the program signals a failure by one of two distinct fatal errors, and its result
  then is the error alone, with no field. If the tests fail at the initial coefficient
  vector and after each of the first \<open>k\<close> updates, \<open>k < 7\<close>, and the next linear solve
  fails, the program ends at once in "Matrix solver failed.". If the tests fail at the
  initial coefficient vector and after each of the first six updates, and the seventh
  linear solve succeeds, the iteration budget of 7 is spent and the program ends in
  "Newton method did not converge.". A run that ends in an error ends in one of these
  two.
\<close>

theorem main_fatal_errors:
  "((\<forall>j\<le>k. \<exists>c. Newton_iterate assemble solve j cv = Some c
              \<and> \<not> residual_norm assemble c < NEWTON_TOL)
      \<and> Newton_iterate assemble solve (Suc k) cv = None \<and> k < 7
     \<longrightarrow> main assemble solve cv = Inl (Error ''Matrix solver failed.\<newline>''))
   \<and> ((\<forall>j<7. \<exists>c. Newton_iterate assemble' solve' j cv' = Some c
              \<and> \<not> residual_norm assemble' c < NEWTON_TOL)
      \<and> Newton_iterate assemble' solve' 7 cv' \<noteq> None
     \<longrightarrow> main assemble' solve' cv' = Inl (Error ''Newton method did not converge.''))
   \<and> (main assemble'' solve'' cv'' = Inl e
     \<longrightarrow> e = Error ''Matrix solver failed.\<newline>''
         \<or> e = Error ''Newton method did not converge.'')
   \<and> Error ''Matrix solver failed.\<newline>'' \<noteq> Error ''Newton method did not converge.''"
proof (intro conjI impI)
  assume a: "(\<forall>j\<le>k. \<exists>c. Newton_iterate assemble solve j cv = Some c
              \<and> \<not> residual_norm assemble c < NEWTON_TOL)
      \<and> Newton_iterate assemble solve (Suc k) cv = None \<and> k < 7"
  then have "1 + int k \<le> NEWTON_MAX_ITER" by (simp add: NEWTON_MAX_ITER_def)
  with a have "Newton_loop assemble solve NEWTON_TOL NEWTON_MAX_ITER 1 False cv =
                 Inl (Error ''Matrix solver failed.\<newline>'')"
    by (intro Newton_loop_aborts_solver [of k]) simp_all
  then show "main assemble solve cv = Inl (Error ''Matrix solver failed.\<newline>'')"
    by (simp add: main_def Newton_run_def)
next
  assume a: "(\<forall>j<7. \<exists>c. Newton_iterate assemble' solve' j cv' = Some c
              \<and> \<not> residual_norm assemble' c < NEWTON_TOL)
      \<and> Newton_iterate assemble' solve' 7 cv' \<noteq> None"
  have six: "Suc 6 = 7" by simp
  have "1 + int 6 = NEWTON_MAX_ITER" by (simp add: NEWTON_MAX_ITER_def)
  moreover from a have "\<forall>j\<le>6. \<exists>c. Newton_iterate assemble' solve' j cv' = Some c
              \<and> \<not> residual_norm assemble' c < NEWTON_TOL"
    by auto
  moreover from a have "Newton_iterate assemble' solve' (Suc 6) cv' \<noteq> None"
    by (simp only: six) simp
  ultimately have "Newton_loop assemble' solve' NEWTON_TOL NEWTON_MAX_ITER 1 False cv' =
                 Inl (Error ''Newton method did not converge.'')"
    by (intro Newton_loop_aborts_budget [of 6])
  then show "main assemble' solve' cv' = Inl (Error ''Newton method did not converge.'')"
    by (simp add: main_def Newton_run_def)
next
  assume "main assemble'' solve'' cv'' = Inl e"
  then have "Newton_loop assemble'' solve'' NEWTON_TOL NEWTON_MAX_ITER 1 False cv'' = Inl e"
    by (rule main_Inl)
  then show "e = Error ''Matrix solver failed.\<newline>''
         \<or> e = Error ''Newton method did not converge.''"
    by (rule Newton_loop_errors)
next
  show "Error ''Matrix solver failed.\<newline>'' \<noteq> Error ''Newton method did not converge.''"
    by simp
qed

theorem main_fatal_errors_witness:
  "Newton_iterate (\<lambda>coeff_vec. [1]) (\<lambda>coeff_vec rhs. None) 0 [3] = Some [3]
   \<and> \<not> residual_norm (\<lambda>coeff_vec. [1]) [3] < NEWTON_TOL
   \<and> Newton_iterate (\<lambda>coeff_vec. [1]) (\<lambda>coeff_vec rhs. None) (Suc 0) [3] = None
   \<and> main (\<lambda>coeff_vec. [1]) (\<lambda>coeff_vec rhs. None) [3] =
       Inl (Error ''Matrix solver failed.\<newline>'')
   \<and> Newton_iterate (\<lambda>coeff_vec. [1]) (\<lambda>coeff_vec rhs. Some (\<lambda>i. 0)) 7 [3] = Some [3]
   \<and> main (\<lambda>coeff_vec. [1]) (\<lambda>coeff_vec rhs. Some (\<lambda>i. 0)) [3] =
       Inl (Error ''Newton method did not converge.'')"
proof -
  let ?a = "\<lambda>coeff_vec::real list. [1::real]"
  let ?fail = "\<lambda>(coeff_vec::real list) (rhs::real list). None :: (nat \<Rightarrow> real) option"
  let ?ok = "\<lambda>(coeff_vec::real list) (rhs::real list). Some (\<lambda>i::nat. 0::real)"
  have norm: "\<not> residual_norm ?a [3] < NEWTON_TOL"
    by (simp add: residual_norm_def get_l2_norm_def change_sign_def NEWTON_TOL_def)
  have stay: "Newton_iterate ?a ?ok j [3] = Some [3]" for j
    by (induction j) simp_all
  have h1: "(\<forall>j\<le>0. \<exists>c. Newton_iterate ?a ?fail j [3] = Some c
                \<and> \<not> residual_norm ?a c < NEWTON_TOL)
            \<and> Newton_iterate ?a ?fail (Suc 0) [3] = None \<and> (0::nat) < 7"
    using norm by simp
  have h2: "(\<forall>j<7. \<exists>c. Newton_iterate ?a ?ok j [3] = Some c
                \<and> \<not> residual_norm ?a c < NEWTON_TOL)
            \<and> Newton_iterate ?a ?ok 7 [3] \<noteq> None"
    using norm by (simp add: stay)
  from main_fatal_errors [of 0 ?a ?fail "[3]" ?a ?ok "[3]" ?a ?fail "[3]"
         "Error ''Matrix solver failed.\<newline>''"]
    h1 h2 norm stay [of 7]
  show ?thesis by simp
qed

end
